theory Spec2Isabelle
  imports Main
begin

section \<open>Strings\<close>

text \<open>
  Python strings are modelled as \<open>string\<close> (lists of 8-bit characters, read as Latin-1).
  \<open>isspace\<close> lists the code points below 256 that \<^verbatim>\<open>str.strip()\<close> removes.
\<close>

definition isspace :: "char \<Rightarrow> bool" where
  "isspace c = ((of_char c :: nat) \<in> {9, 10, 11, 12, 13, 28, 29, 30, 31, 32, 133, 160})"

definition strip :: "string \<Rightarrow> string" where
  "strip s = rev (dropWhile isspace (rev (dropWhile isspace s)))"

text \<open>\<^verbatim>\<open>not s or not s.strip()\<close>\<close>

definition blank :: "string \<Rightarrow> bool" where
  "blank s = (s = [] \<or> strip s = [])"

section \<open>JSON values, exceptions and the external world\<close>

text \<open>
  A binary64 float is a sign, a magnitude \<open>m\<close> and an exponent \<open>e\<close> standing for
  \<open>\<plusminus> m * 2 ^ e\<close>, an infinity or a NaN.
\<close>

datatype f64 = Finite bool nat int | Infty bool | NaN

datatype json =
    JNull
  | JBool bool
  | JInt int
  | JFloat f64
  | JStr string
  | JList "json list"
  | JDict "(string \<times> json) list"

datatype exn_kind =
    ValueError | KeyError | TypeError | AttributeError | OverflowError
  | JSONDecodeError | RequestException | HTTPException | OtherException

datatype exn = Exn exn_kind string

fun exn_msg :: "exn \<Rightarrow> string" where
  "exn_msg (Exn k m) = m"

fun exn_kind_of :: "exn \<Rightarrow> exn_kind" where
  "exn_kind_of (Exn k m) = k"

text \<open>\<^verbatim>\<open>except ValueError\<close> also catches \<^verbatim>\<open>json.JSONDecodeError\<close>, its subclass.\<close>

definition is_ValueError :: "exn \<Rightarrow> bool" where
  "is_ValueError e = (exn_kind_of e = ValueError \<or> exn_kind_of e = JSONDecodeError)"

text \<open>
  The body of an HTTP response either parses (\<^verbatim>\<open>response.json()\<close> returns) or
  makes \<^verbatim>\<open>response.json()\<close> raise.
\<close>

datatype body = BadBody exn | Json json

datatype http_outcome = HttpRaised exn | HttpResponse int body

datatype llm_outcome = LlmRaised exn | LlmContent "string option"

text \<open>
  Every external call is logged. The two GET requests on \<^verbatim>\<open>/history/get-history\<close> are
  told apart by the function that issues them.
\<close>

datatype request =
    ValidateGet string
  | HistoryGet string
  | ReportGet string
  | HistoryPost string string string
  | Completion string

type_synonym trace = "request list"

text \<open>
  The environment the program runs in. The outcome of an external call may depend on all
  calls made before. \<open>py_repr\<close> is the runtime's \<^verbatim>\<open>repr\<close> of floats, lists and dicts.
\<close>

record world =
  http :: "trace \<Rightarrow> request \<Rightarrow> http_outcome"
  llm :: "trace \<Rightarrow> string \<Rightarrow> llm_outcome"
  py_repr :: "json \<Rightarrow> string"

fun is_list :: "json \<Rightarrow> bool" where
  "is_list (JList xs) = True"
| "is_list _ = False"

fun is_dict :: "json \<Rightarrow> bool" where
  "is_dict (JDict kvs) = True"
| "is_dict _ = False"

section \<open>app/core/utils.py\<close>

subsection \<open>validate_user_exists\<close>

text \<open>The \<^verbatim>\<open>try\<close> block of \<^verbatim>\<open>validate_user_exists\<close>: it raises what
  \<^verbatim>\<open>requests.get\<close> raises, and catches \<^verbatim>\<open>json.JSONDecodeError\<close> itself.\<close>

definition validate_user_exists_try :: "world \<Rightarrow> trace \<Rightarrow> string \<Rightarrow> (exn + bool \<times> string)" where
  "validate_user_exists_try w tr user_id =
     (case http w tr (ValidateGet (strip user_id)) of
        HttpRaised e \<Rightarrow> Inl e
      | HttpResponse status_code b \<Rightarrow>
          if status_code = 200 then
            (case b of
               Json response_data \<Rightarrow>
                 if is_list response_data then Inr (True, strip user_id)
                 else Inr (False, [])
             | BadBody e \<Rightarrow>
                 if exn_kind_of e = JSONDecodeError then Inr (False, []) else Inl e)
          else if status_code = 404 then Inr (False, [])
          else if status_code = 400 then Inr (False, [])
          else Inr (False, []))"

definition validate_user_exists :: "world \<Rightarrow> trace \<Rightarrow> string \<Rightarrow> (exn + bool \<times> string) \<times> trace" where
  "validate_user_exists w tr user_id =
     (if blank user_id then (Inr (False, []), tr)
      else
        (case validate_user_exists_try w tr user_id of
           Inl e \<Rightarrow> (Inr (False, []), tr @ [ValidateGet (strip user_id)])
         | Inr r \<Rightarrow> (Inr r, tr @ [ValidateGet (strip user_id)])))"

subsection \<open>fetch_chat_history_for_validated_user\<close>

definition fetch_chat_history_try :: "world \<Rightarrow> trace \<Rightarrow> string \<Rightarrow> (exn + json list)" where
  "fetch_chat_history_try w tr user_id =
     (case http w tr (HistoryGet user_id) of
        HttpRaised e \<Rightarrow> Inl e
      | HttpResponse status_code b \<Rightarrow>
          if status_code = 200 then
            (case b of
               Json history_data \<Rightarrow>
                 (case history_data of JList xs \<Rightarrow> Inr xs | _ \<Rightarrow> Inr [])
             | BadBody e \<Rightarrow>
                 if exn_kind_of e = JSONDecodeError then Inr [] else Inl e)
          else Inr [])"

definition fetch_chat_history_for_validated_user ::
  "world \<Rightarrow> trace \<Rightarrow> string \<Rightarrow> (exn + json list) \<times> trace" where
  "fetch_chat_history_for_validated_user w tr user_id =
     (case fetch_chat_history_try w tr user_id of
        Inl e \<Rightarrow> (Inr [], tr @ [HistoryGet user_id])
      | Inr h \<Rightarrow> (Inr h, tr @ [HistoryGet user_id]))"

subsection \<open>fetch_user_specific_expense_data\<close>

text \<open>
  A parsed JSON object is a Python \<^verbatim>\<open>dict\<close>: an association list in insertion order
  whose keys are distinct; it is empty (falsy) exactly when the list is empty.
\<close>

type_synonym pydict = "(string \<times> json) list"

text \<open>The inner \<^verbatim>\<open>try\<close> block around \<^verbatim>\<open>requests.get(primary_url, ...)\<close>.\<close>

definition fetch_report_try :: "world \<Rightarrow> trace \<Rightarrow> string \<Rightarrow> (exn + pydict option)" where
  "fetch_report_try w tr validated_user_id =
     (case http w tr (ReportGet validated_user_id) of
        HttpRaised e \<Rightarrow>
          if exn_kind_of e = RequestException then Inr None else Inl e
      | HttpResponse status_code b \<Rightarrow>
          if status_code = 200 then
            (case b of
               Json data \<Rightarrow>
                 (case data of
                    JDict kvs \<Rightarrow> if kvs \<noteq> [] then Inr (Some kvs) else Inr None
                  | _ \<Rightarrow> Inr None)
             | BadBody e \<Rightarrow>
                 if exn_kind_of e = JSONDecodeError then Inr None
                 else if exn_kind_of e = RequestException then Inr None
                 else Inl e)
          else if status_code = 404 then Inr None
          else Inr None)"

definition fetch_user_specific_expense_data ::
  "world \<Rightarrow> trace \<Rightarrow> string \<Rightarrow> (exn + pydict option) \<times> trace" where
  "fetch_user_specific_expense_data w tr user_id =
     (if blank user_id then (Inr None, tr)
      else
        (case validate_user_exists w tr (strip user_id) of
           (Inl e, tr1) \<Rightarrow> (Inl e, tr1)
         | (Inr (is_valid_user, validated_user_id), tr1) \<Rightarrow>
             if \<not> is_valid_user then (Inr None, tr1)
             else
               (case fetch_report_try w tr1 validated_user_id of
                  Inl e \<Rightarrow> (Inr None, tr1 @ [ReportGet validated_user_id])
                | Inr r \<Rightarrow> (Inr r, tr1 @ [ReportGet validated_user_id]))))"

subsection \<open>validate_and_send_to_history\<close>

definition validate_and_send_to_history ::
  "world \<Rightarrow> trace \<Rightarrow> string \<Rightarrow> string \<Rightarrow> string \<Rightarrow> (exn + bool) \<times> trace" where
  "validate_and_send_to_history w tr user_message assistant_response user_id =
     (if user_message = [] \<or> assistant_response = [] \<or> blank user_id then (Inr False, tr)
      else
        (case validate_user_exists w tr (strip user_id) of
           (Inl e, tr1) \<Rightarrow> (Inl e, tr1)
         | (Inr (is_valid, validated_user_id), tr1) \<Rightarrow>
             if \<not> is_valid then (Inr False, tr1)
             else
               (let rq = HistoryPost validated_user_id (strip user_message) (strip assistant_response)
                in case http w tr1 rq of
                     HttpRaised e \<Rightarrow> (Inr False, tr1 @ [rq])
                   | HttpResponse status_code b \<Rightarrow>
                       (Inr (status_code = 200 \<or> status_code = 201), tr1 @ [rq]))))"

section \<open>Python numbers\<close>

text \<open>
  JSON numbers arrive as Python \<^verbatim>\<open>int\<close> (unbounded) or \<^verbatim>\<open>float\<close> (IEEE 754 binary64,
  round to nearest, ties to even). \<open>Finite s m e\<close> is kept normalised: \<open>m\<close> is odd, or
  \<open>m = 0\<close> and \<open>e = 0\<close>.
\<close>

fun bitlen :: "nat \<Rightarrow> nat" where
  "bitlen n = (if n = 0 then 0 else Suc (bitlen (n div 2)))"

fun norm_me :: "nat \<Rightarrow> int \<Rightarrow> nat \<times> int" where
  "norm_me m e =
     (if m = 0 then (0, 0)
      else if even m then norm_me (m div 2) (e + 1)
      else (m, e))"

definition mk_finite :: "bool \<Rightarrow> nat \<Rightarrow> int \<Rightarrow> f64" where
  "mk_finite s m e = (case norm_me m e of (m', e') \<Rightarrow> Finite s m' e')"

text \<open>
  \<open>round64 s m e\<close> is the binary64 value nearest to the exact \<open>\<plusminus> m * 2 ^ e\<close>: 53 bits of
  precision, least exponent \<open>-1074\<close>, overflow to infinity from \<open>2 ^ 1024\<close> on.
\<close>

definition round64 :: "bool \<Rightarrow> nat \<Rightarrow> int \<Rightarrow> f64" where
  "round64 s m e =
     (let q = max (e + int (bitlen m) - 53) (- 1074) in
      if q \<le> e then
        (if e + int (bitlen m) > 1024 then Infty s else mk_finite s m e)
      else
        (let sh = nat (q - e);
             t = m div 2 ^ sh;
             r = m mod 2 ^ sh;
             half = 2 ^ (sh - 1);
             t' = (if r > half \<or> (r = half \<and> odd t) then t + 1 else t)
         in if int (bitlen t') + q > 1024 then Infty s else mk_finite s t' q))"

definition signed :: "bool \<Rightarrow> nat \<Rightarrow> int" where
  "signed s m = (if s then - int m else int m)"

fun fadd :: "f64 \<Rightarrow> f64 \<Rightarrow> f64" where
  "fadd NaN y = NaN"
| "fadd x NaN = NaN"
| "fadd (Infty s) (Infty t) = (if s = t then Infty s else NaN)"
| "fadd (Infty s) (Finite t m e) = Infty s"
| "fadd (Finite s m e) (Infty t) = Infty t"
| "fadd (Finite s1 m1 e1) (Finite s2 m2 e2) =
     (let e = min e1 e2;
          c = signed s1 m1 * 2 ^ nat (e1 - e) + signed s2 m2 * 2 ^ nat (e2 - e)
      in if c = 0 then Finite (s1 \<and> s2) 0 0
         else round64 (c < 0) (nat \<bar>c\<bar>) e)"

fun fneg :: "f64 \<Rightarrow> f64" where
  "fneg NaN = NaN"
| "fneg (Infty s) = Infty (\<not> s)"
| "fneg (Finite s m e) = Finite (\<not> s) m e"

definition fsub :: "f64 \<Rightarrow> f64 \<Rightarrow> f64" where
  "fsub x y = fadd x (fneg y)"

fun fmul :: "f64 \<Rightarrow> f64 \<Rightarrow> f64" where
  "fmul NaN y = NaN"
| "fmul x NaN = NaN"
| "fmul (Infty s) (Infty t) = Infty (s \<noteq> t)"
| "fmul (Infty s) (Finite t m e) = (if m = 0 then NaN else Infty (s \<noteq> t))"
| "fmul (Finite s m e) (Infty t) = (if m = 0 then NaN else Infty (s \<noteq> t))"
| "fmul (Finite s1 m1 e1) (Finite s2 m2 e2) =
     (if m1 * m2 = 0 then Finite (s1 \<noteq> s2) 0 0
      else round64 (s1 \<noteq> s2) (m1 * m2) (e1 + e2))"

datatype pynum = PInt int | PFloat f64

definition bind_exn :: "exn + 'a \<Rightarrow> ('a \<Rightarrow> exn + 'b) \<Rightarrow> exn + 'b" where
  "bind_exn x f = (case x of Inl e \<Rightarrow> Inl e | Inr v \<Rightarrow> f v)"

text \<open>\<^verbatim>\<open>float(n)\<close> for an \<^verbatim>\<open>int\<close>.\<close>

definition float_of_int :: "int \<Rightarrow> exn + f64" where
  "float_of_int n =
     (if n = 0 then Inr (Finite False 0 0)
      else
        (case round64 (n < 0) (nat \<bar>n\<bar>) 0 of
           Infty s \<Rightarrow> Inl (Exn OverflowError ''int too large to convert to float'')
         | x \<Rightarrow> Inr x))"

text \<open>\<^verbatim>\<open>int(x)\<close> for a \<^verbatim>\<open>float\<close>: truncation towards zero.\<close>

fun int_of_float :: "f64 \<Rightarrow> exn + int" where
  "int_of_float NaN = Inl (Exn ValueError ''cannot convert float NaN to integer'')"
| "int_of_float (Infty s) = Inl (Exn OverflowError ''cannot convert float infinity to integer'')"
| "int_of_float (Finite s m e) =
     Inr (signed s (if 0 \<le> e then m * 2 ^ nat e else m div 2 ^ nat (- e)))"

fun py_add :: "pynum \<Rightarrow> pynum \<Rightarrow> exn + pynum" where
  "py_add (PInt a) (PInt b) = Inr (PInt (a + b))"
| "py_add (PInt a) (PFloat y) = bind_exn (float_of_int a) (\<lambda>x. Inr (PFloat (fadd x y)))"
| "py_add (PFloat x) (PInt b) = bind_exn (float_of_int b) (\<lambda>y. Inr (PFloat (fadd x y)))"
| "py_add (PFloat x) (PFloat y) = Inr (PFloat (fadd x y))"

fun py_sub :: "pynum \<Rightarrow> pynum \<Rightarrow> exn + pynum" where
  "py_sub (PInt a) (PInt b) = Inr (PInt (a - b))"
| "py_sub (PInt a) (PFloat y) = bind_exn (float_of_int a) (\<lambda>x. Inr (PFloat (fsub x y)))"
| "py_sub (PFloat x) (PInt b) = bind_exn (float_of_int b) (\<lambda>y. Inr (PFloat (fsub x y)))"
| "py_sub (PFloat x) (PFloat y) = Inr (PFloat (fsub x y))"

text \<open>The number a JSON value is in arithmetic (\<^verbatim>\<open>bool\<close> is a subclass of \<^verbatim>\<open>int\<close>).\<close>

fun as_number :: "json \<Rightarrow> pynum option" where
  "as_number (JInt i) = Some (PInt i)"
| "as_number (JFloat x) = Some (PFloat x)"
| "as_number (JBool b) = Some (PInt (if b then 1 else 0))"
| "as_number v = None"

text \<open>
  \<^verbatim>\<open>sum(xs)\<close>: the items are added from left to right onto the integer \<open>0\<close>.
  (CPython from 3.12 on adds floats with a compensated sum; it returns the same values on
  the inputs evaluated below.)
\<close>

fun py_sum_from :: "pynum \<Rightarrow> json list \<Rightarrow> exn + pynum" where
  "py_sum_from acc [] = Inr acc"
| "py_sum_from acc (v # vs) =
     (case as_number v of
        None \<Rightarrow> Inl (Exn TypeError ''unsupported operand type(s) for +'')
      | Some n \<Rightarrow>
          (case py_add acc n of
             Inl e \<Rightarrow> Inl e
           | Inr acc' \<Rightarrow> py_sum_from acc' vs))"

definition py_sum :: "json list \<Rightarrow> exn + pynum" where
  "py_sum xs = py_sum_from (PInt 0) xs"

subsection \<open>Formatting\<close>

definition digit_char :: "nat \<Rightarrow> char" where
  "digit_char d = ''0123456789'' ! d"

fun show_nat :: "nat \<Rightarrow> string" where
  "show_nat n = (if n < 10 then [digit_char n] else show_nat (n div 10) @ [digit_char (n mod 10)])"

definition show_int :: "int \<Rightarrow> string" where
  "show_int i = (if i < 0 then ''-'' @ show_nat (nat (- i)) else show_nat (nat i))"

text \<open>
  \<^verbatim>\<open>format(x, '.2f')\<close> for a float: the exact value times 100, rounded to an integer
  with ties to even, printed with two decimals and the sign of \<open>x\<close>.
\<close>

definition hundredths :: "nat \<Rightarrow> int \<Rightarrow> nat" where
  "hundredths m e =
     (if 0 \<le> e then m * 100 * 2 ^ nat e
      else
        (let d = 2 ^ nat (- e);
             t = (m * 100) div d;
             r = (m * 100) mod d
         in if 2 * r > d \<or> (2 * r = d \<and> odd t) then t + 1 else t))"

fun fmt2 :: "f64 \<Rightarrow> string" where
  "fmt2 NaN = ''nan''"
| "fmt2 (Infty s) = (if s then ''-inf'' else ''inf'')"
| "fmt2 (Finite s m e) =
     (let n = hundredths m e
      in (if s then ''-'' else '''') @ show_nat (n div 100) @ ''.''
           @ [digit_char (n mod 100 div 10), digit_char (n mod 10)])"

text \<open>\<^verbatim>\<open>f"{x:.2f}"\<close> for a number: an \<^verbatim>\<open>int\<close> is converted to \<^verbatim>\<open>float\<close> first.\<close>

fun format_2f :: "pynum \<Rightarrow> exn + string" where
  "format_2f (PInt i) = bind_exn (float_of_int i) (\<lambda>x. Inr (fmt2 x))"
| "format_2f (PFloat x) = Inr (fmt2 x)"

definition format_2f_json :: "json \<Rightarrow> exn + string" where
  "format_2f_json v =
     (case as_number v of
        Some n \<Rightarrow> format_2f n
      | None \<Rightarrow>
          (case v of
             JStr s \<Rightarrow> Inl (Exn ValueError ''Unknown format code f for object of type str'')
           | _ \<Rightarrow> Inl (Exn TypeError ''unsupported format string passed to __format__'')))"

text \<open>
  \<^verbatim>\<open>str(v)\<close> as an f-string field without format renders a string as itself; the
  \<^verbatim>\<open>repr\<close> of a float, a list or a dict is left to the runtime, given as \<open>R\<close>.
\<close>

fun py_str :: "(json \<Rightarrow> string) \<Rightarrow> json \<Rightarrow> string" where
  "py_str R (JStr s) = s"
| "py_str R JNull = ''None''"
| "py_str R (JBool b) = (if b then ''True'' else ''False'')"
| "py_str R (JInt i) = show_int i"
| "py_str R v = R v"

subsection \<open>Subscripts and iteration on JSON values\<close>

text \<open>\<^verbatim>\<open>v[k]\<close> with a string key.\<close>

fun subscript :: "json \<Rightarrow> string \<Rightarrow> exn + json" where
  "subscript (JDict kvs) k =
     (case map_of kvs k of None \<Rightarrow> Inl (Exn KeyError k) | Some v \<Rightarrow> Inr v)"
| "subscript (JList xs) k = Inl (Exn TypeError ''list indices must be integers or slices, not str'')"
| "subscript (JStr s) k = Inl (Exn TypeError ''string indices must be integers'')"
| "subscript v k = Inl (Exn TypeError ''object is not subscriptable'')"

text \<open>\<^verbatim>\<open>v.get(k, default)\<close>.\<close>

fun dict_get :: "json \<Rightarrow> string \<Rightarrow> json \<Rightarrow> exn + json" where
  "dict_get (JDict kvs) k d = (case map_of kvs k of None \<Rightarrow> Inr d | Some v \<Rightarrow> Inr v)"
| "dict_get v k d = Inl (Exn AttributeError ''object has no attribute get'')"

text \<open>The items of \<^verbatim>\<open>for x in v\<close>.\<close>

fun py_iter :: "json \<Rightarrow> exn + json list" where
  "py_iter (JList xs) = Inr xs"
| "py_iter (JDict kvs) = Inr (map (\<lambda>kv. JStr (fst kv)) kvs)"
| "py_iter (JStr s) = Inr (map (\<lambda>c. JStr [c]) s)"
| "py_iter v = Inl (Exn TypeError ''object is not iterable'')"

fun map_exn :: "('a \<Rightarrow> exn + 'b) \<Rightarrow> 'a list \<Rightarrow> exn + 'b list" where
  "map_exn f [] = Inr []"
| "map_exn f (x # xs) =
     (case f x of
        Inl e \<Rightarrow> Inl e
      | Inr y \<Rightarrow> (case map_exn f xs of Inl e \<Rightarrow> Inl e | Inr ys \<Rightarrow> Inr (y # ys)))"

section \<open>app/services/expense_rag.py\<close>

subsection \<open>The session object\<close>

text \<open>
  A chunk is the dict \<^verbatim>\<open>_process_data\<close> builds; a daily chunk stores its key under
  \<^verbatim>\<open>'date'\<close>, a weekly or monthly one under \<^verbatim>\<open>'period'\<close>.
\<close>

datatype chunk_key = Date json | Period json

record chunk =
  chunk_type :: string
  chunk_key :: chunk_key
  chunk_text :: string
  total_income :: pynum
  total_expenses :: pynum
  net :: pynum

text \<open>
  The mutable fields of a \<^verbatim>\<open>SimpleExpenseRAG\<close> instance. The assistant's text of an
  exchange is \<open>None\<close> when the provider returned no content.
\<close>

record session =
  current_conversation :: "(string \<times> string option) list"
  chat_history :: "json list"
  expense_data :: "pydict option"
  processed_chunks :: "chunk list"

subsection \<open>_process_data\<close>

text \<open>\<^verbatim>\<open>[t['amount'] for t in transactions if t['transactionType'] == ty]\<close>\<close>

fun amounts_of_type :: "string \<Rightarrow> json list \<Rightarrow> exn + json list" where
  "amounts_of_type ty [] = Inr []"
| "amounts_of_type ty (t # ts) =
     (case subscript t ''transactionType'' of
        Inl e \<Rightarrow> Inl e
      | Inr tt \<Rightarrow>
          if tt = JStr ty then
            (case subscript t ''amount'' of
               Inl e \<Rightarrow> Inl e
             | Inr a \<Rightarrow>
                 (case amounts_of_type ty ts of Inl e \<Rightarrow> Inl e | Inr r \<Rightarrow> Inr (a # r)))
          else amounts_of_type ty ts)"

definition sum_of_type :: "string \<Rightarrow> json \<Rightarrow> exn + pynum" where
  "sum_of_type ty transactions =
     bind_exn (py_iter transactions) (\<lambda>ts.
     bind_exn (amounts_of_type ty ts) py_sum)"

text \<open>The itemised listing of a daily chunk, one line per transaction.\<close>

fun transaction_lines :: "(json \<Rightarrow> string) \<Rightarrow> json list \<Rightarrow> exn + string" where
  "transaction_lines R [] = Inr []"
| "transaction_lines R (t # ts) =
     (case subscript t ''transactionType'' of
        Inl e \<Rightarrow> Inl e
      | Inr tt \<Rightarrow>
     (case subscript t ''amount'' of
        Inl e \<Rightarrow> Inl e
      | Inr a \<Rightarrow>
     (case format_2f_json a of
        Inl e \<Rightarrow> Inl e
      | Inr fa \<Rightarrow>
     (case dict_get t ''description'' (JStr ''N/A'') of
        Inl e \<Rightarrow> Inl e
      | Inr d \<Rightarrow>
     (case transaction_lines R ts of
        Inl e \<Rightarrow> Inl e
      | Inr rest \<Rightarrow>
          Inr (''- '' @ py_str R tt @ '': $'' @ fa @ '' - '' @ py_str R d @ ''\<newline>'' @ rest))))))"

definition process_day :: "(json \<Rightarrow> string) \<Rightarrow> json \<Rightarrow> exn + chunk" where
  "process_day R day =
     bind_exn (subscript day ''transactions'') (\<lambda>transactions.
     bind_exn (subscript day ''_id'') (\<lambda>date.
     bind_exn (sum_of_type ''income'' transactions) (\<lambda>total_income.
     bind_exn (sum_of_type ''expense'' transactions) (\<lambda>total_expenses.
     bind_exn (format_2f total_income) (\<lambda>fi.
     bind_exn (format_2f total_expenses) (\<lambda>fe.
     bind_exn (py_sub total_income total_expenses) (\<lambda>d.
     bind_exn (format_2f d) (\<lambda>fd.
     bind_exn (py_iter transactions) (\<lambda>ts.
     bind_exn (transaction_lines R ts) (\<lambda>lines.
     bind_exn (py_sub total_income total_expenses) (\<lambda>net.
       Inr \<lparr>chunk_type = ''daily'',
            chunk_key = Date date,
            chunk_text =
              ''Date: '' @ py_str R date @ ''\<newline>''
              @ ''Income: $'' @ fi @ '', Expenses: $'' @ fe @ '', Net: $'' @ fd @ ''\<newline>''
              @ ''Transactions:\<newline>'' @ lines,
            total_income = total_income,
            total_expenses = total_expenses,
            net = net\<rparr>)))))))))))"

definition process_week :: "(json \<Rightarrow> string) \<Rightarrow> json \<Rightarrow> exn + chunk" where
  "process_week R week =
     bind_exn (subscript week ''transactions'') (\<lambda>transactions.
     bind_exn (sum_of_type ''income'' transactions) (\<lambda>total_income.
     bind_exn (sum_of_type ''expense'' transactions) (\<lambda>total_expenses.
     bind_exn (subscript week ''weekStartDate'') (\<lambda>ws.
     bind_exn (subscript week ''weekEndDate'') (\<lambda>we.
     bind_exn (format_2f total_income) (\<lambda>fi.
     bind_exn (format_2f total_expenses) (\<lambda>fe.
     bind_exn (py_sub total_income total_expenses) (\<lambda>d.
     bind_exn (format_2f d) (\<lambda>fd.
     bind_exn (subscript week ''_id'') (\<lambda>period.
     bind_exn (py_sub total_income total_expenses) (\<lambda>net.
       Inr \<lparr>chunk_type = ''weekly'',
            chunk_key = Period period,
            chunk_text =
              ''Week: '' @ py_str R ws @ '' to '' @ py_str R we @ ''\<newline>''
              @ ''Income: $'' @ fi @ '', Expenses: $'' @ fe @ ''\<newline>''
              @ ''Net: $'' @ fd @ ''\<newline>'',
            total_income = total_income,
            total_expenses = total_expenses,
            net = net\<rparr>)))))))))))"

definition process_month :: "(json \<Rightarrow> string) \<Rightarrow> json \<Rightarrow> exn + chunk" where
  "process_month R month =
     bind_exn (subscript month ''transactions'') (\<lambda>transactions.
     bind_exn (sum_of_type ''income'' transactions) (\<lambda>total_income.
     bind_exn (sum_of_type ''expense'' transactions) (\<lambda>total_expenses.
     bind_exn (subscript month ''_id'') (\<lambda>mid.
     bind_exn (format_2f total_income) (\<lambda>fi.
     bind_exn (format_2f total_expenses) (\<lambda>fe.
     bind_exn (py_sub total_income total_expenses) (\<lambda>d.
     bind_exn (format_2f d) (\<lambda>fd.
     bind_exn (subscript month ''_id'') (\<lambda>period.
     bind_exn (py_sub total_income total_expenses) (\<lambda>net.
       Inr \<lparr>chunk_type = ''monthly'',
            chunk_key = Period period,
            chunk_text =
              ''Month: '' @ py_str R mid @ ''\<newline>''
              @ ''Income: $'' @ fi @ '', Expenses: $'' @ fe @ ''\<newline>''
              @ ''Net: $'' @ fd @ ''\<newline>'',
            total_income = total_income,
            total_expenses = total_expenses,
            net = net\<rparr>))))))))))"

text \<open>
  One of the three blocks \<^verbatim>\<open>if k in self.expense_data: for p in self.expense_data[k]: ...\<close>,
  appending to the chunks built so far.
\<close>

definition process_section ::
  "(json \<Rightarrow> exn + chunk) \<Rightarrow> string \<Rightarrow> pydict \<Rightarrow> chunk list \<Rightarrow> exn + chunk list" where
  "process_section f k data chunks =
     (case map_of data k of
        None \<Rightarrow> Inr chunks
      | Some periods \<Rightarrow>
          bind_exn (py_iter periods) (\<lambda>ps.
          bind_exn (map_exn f ps) (\<lambda>cs. Inr (chunks @ cs))))"

definition process_data :: "(json \<Rightarrow> string) \<Rightarrow> pydict \<Rightarrow> exn + chunk list" where
  "process_data R data =
     bind_exn (process_section (process_day R) ''daily'' data []) (\<lambda>chunks1.
     bind_exn (process_section (process_week R) ''weekly'' data chunks1) (\<lambda>chunks2.
     process_section (process_month R) ''monthly'' data chunks2))"

subsection \<open>set_expense_data\<close>

text \<open>
  \<^verbatim>\<open>self.expense_data\<close> is assigned before \<^verbatim>\<open>_process_data\<close> runs, so it keeps the new
  data when \<^verbatim>\<open>_process_data\<close> raises.
\<close>

definition set_expense_data ::
  "(json \<Rightarrow> string) \<Rightarrow> session \<Rightarrow> pydict option \<Rightarrow> (exn + unit) \<times> session" where
  "set_expense_data R s d =
     (case d of
        Some kvs \<Rightarrow>
          if kvs \<noteq> [] then
            (case process_data R kvs of
               Inl e \<Rightarrow> (Inl e, s\<lparr>expense_data := Some kvs\<rparr>)
             | Inr cs \<Rightarrow> (Inr (), s\<lparr>expense_data := Some kvs, processed_chunks := cs\<rparr>))
          else (Inr (), s\<lparr>processed_chunks := [], expense_data := None\<rparr>)
      | None \<Rightarrow> (Inr (), s\<lparr>processed_chunks := [], expense_data := None\<rparr>))"

subsection \<open>load_user_chat_history\<close>

definition load_user_chat_history ::
  "world \<Rightarrow> trace \<Rightarrow> session \<Rightarrow> string \<Rightarrow> (exn + string) \<times> session \<times> trace" where
  "load_user_chat_history w tr s user_id =
     (if blank user_id then
        (Inl (Exn ValueError ''Invalid user_id: User ID cannot be empty''), s, tr)
      else
        (case validate_user_exists w tr (strip user_id) of
           (Inl e, tr1) \<Rightarrow> (Inl e, s, tr1)
         | (Inr (is_valid_user, validated_user_id), tr1) \<Rightarrow>
             if \<not> is_valid_user then
               (Inl (Exn ValueError (''Invalid user_id: '' @ user_id @ ''. User not found.'')), s, tr1)
             else
               (case fetch_chat_history_for_validated_user w tr1 validated_user_id of
                  (Inl e, tr2) \<Rightarrow>
                    (Inl (Exn ValueError
                       (''Invalid user_id: '' @ user_id @ ''. Unable to load chat history.'')), s, tr2)
                | (Inr h, tr2) \<Rightarrow> (Inr validated_user_id, s\<lparr>chat_history := h\<rparr>, tr2))))"

subsection \<open>_build_context\<close>

text \<open>The three loops of \<^verbatim>\<open>_build_context\<close>, each appending to \<^verbatim>\<open>context_parts\<close>;
  \<open>i\<close> is the counter of \<^verbatim>\<open>enumerate(..., 1)\<close>.\<close>

fun add_chunks :: "nat \<Rightarrow> chunk list \<Rightarrow> string list \<Rightarrow> string list" where
  "add_chunks i [] context_parts = context_parts"
| "add_chunks i (c # cs) context_parts =
     add_chunks (Suc i) cs
       (context_parts @ [''Data '' @ show_nat i @ '' ('' @ chunk_type c @ ''):\<newline>'' @ chunk_text c])"

fun add_history :: "(json \<Rightarrow> string) \<Rightarrow> nat \<Rightarrow> json list \<Rightarrow> string list \<Rightarrow> exn + string list" where
  "add_history R i [] context_parts = Inr context_parts"
| "add_history R i (conv # convs) context_parts =
     (case dict_get conv ''human'' (JStr '''') of
        Inl e \<Rightarrow> Inl e
      | Inr h \<Rightarrow>
          (case dict_get conv ''assistant'' (JStr '''') of
             Inl e \<Rightarrow> Inl e
           | Inr a \<Rightarrow>
               add_history R (Suc i) convs
                 (context_parts @
                   [''Previous '' @ show_nat i @ '':'',
                    ''Human: '' @ py_str R h,
                    ''Assistant: '' @ py_str R a])))"

definition str_opt :: "string option \<Rightarrow> string" where
  "str_opt x = (case x of None \<Rightarrow> ''None'' | Some s \<Rightarrow> s)"

fun add_exchanges :: "nat \<Rightarrow> (string \<times> string option) list \<Rightarrow> string list \<Rightarrow> string list" where
  "add_exchanges i [] context_parts = context_parts"
| "add_exchanges i ((human_msg, ai_msg) # xs) context_parts =
     add_exchanges (Suc i) xs
       (context_parts @
         [''Exchange '' @ show_nat i @ '':'',
          ''Human: '' @ human_msg,
          ''Assistant: '' @ str_opt ai_msg])"

text \<open>\<^verbatim>\<open>xs[-3:]\<close> and \<^verbatim>\<open>xs[-5:]\<close>\<close>

definition last_n :: "nat \<Rightarrow> 'a list \<Rightarrow> 'a list" where
  "last_n n xs = drop (length xs - n) xs"

text \<open>\<^verbatim>\<open>"\n".join(parts)\<close>\<close>

fun join_nl :: "string list \<Rightarrow> string" where
  "join_nl [] = []"
| "join_nl [x] = x"
| "join_nl (x # y # ys) = x @ ''\<newline>'' @ join_nl (y # ys)"

text \<open>\<^verbatim>\<open>context_parts\<close> as it stands before the final join.\<close>

definition context_parts :: "(json \<Rightarrow> string) \<Rightarrow> session \<Rightarrow> exn + string list" where
  "context_parts R s =
     (let parts1 =
            (if processed_chunks s \<noteq> [] then
               add_chunks 1 (processed_chunks s) ([] @ [''=== ALL EXPENSE DATA ===''])
             else [])
      in bind_exn
           (if chat_history s \<noteq> [] then
              add_history R 1 (last_n 3 (chat_history s))
                (parts1 @ [''\<newline>=== PREVIOUS CONVERSATIONS ===''])
            else Inr parts1)
           (\<lambda>parts2.
              Inr (if current_conversation s \<noteq> [] then
                     add_exchanges 1 (current_conversation s)
                       (parts2 @ [''\<newline>=== CURRENT CONVERSATION ===''])
                   else parts2)))"

definition build_context :: "(json \<Rightarrow> string) \<Rightarrow> session \<Rightarrow> string \<Rightarrow> exn + string" where
  "build_context R s query = bind_exn (context_parts R s) (\<lambda>parts. Inr (join_nl parts))"

subsection \<open>chat\<close>

definition prompt_head :: string where
  "prompt_head =
     ''Use the information from the context to answer the question at the end. If you don't know the answer based on the provided data, just say that you don't know, definitely do not try to make up an answer.\<newline>\<newline>You are Teddy, a friendly and knowledgeable personal finance assistant. Use ALL the expense data and conversation history to provide helpful, specific financial advice.\<newline>\<newline>''"

definition prompt_guidelines :: string where
  "prompt_guidelines =
     ''\<newline>\<newline>Guidelines:\<newline>''
     @ ''- You have access to ALL expense data available - use it comprehensively to answer questions\<newline>''
     @ ''- If someone asks about expenses, provide a summary of all the expenses, then ask if they specifically want to know about any particular aspect\<newline>''
     @ ''- Use exact numbers from the expense data when available\<newline>''
     @ ''- Be encouraging but honest about financial situations\<newline>''
     @ ''- Provide specific recommendations based on the data\<newline>''
     @ ''- Reference previous conversations when relevant\<newline>''
     @ ''- If no relevant data is available, offer general financial advice\<newline>''
     @ ''- Keep your response helpful and conversational\<newline>''
     @ ''- If the user is engaging in normal conversation (greetings, casual chat), respond naturally and conversationally while maintaining your role as a finance assistant\<newline>''"

text \<open>\<^verbatim>\<open>prompt_template.format(context=context, question=user_query)\<close>\<close>

definition full_prompt :: "string \<Rightarrow> string \<Rightarrow> string" where
  "full_prompt context question =
     prompt_head @ context @ ''\<newline>\<newline>Question: '' @ question @ prompt_guidelines"

text \<open>
  The part of \<^verbatim>\<open>chat\<close> before its \<^verbatim>\<open>try\<close> block: validate and load the history,
  build the context and the prompt. It returns \<^verbatim>\<open>validated_user_id\<close> and
  \<^verbatim>\<open>full_prompt\<close>, or raises.
\<close>

definition chat_prepare ::
  "world \<Rightarrow> trace \<Rightarrow> session \<Rightarrow> string \<Rightarrow> string
     \<Rightarrow> (exn + string \<times> string) \<times> session \<times> trace" where
  "chat_prepare w tr s user_query user_id =
     (case
        (if user_id \<noteq> [] then
           (if strip user_id = [] then
              (Inl (Exn ValueError ''Invalid user_id: User ID cannot be empty''), s, tr)
            else load_user_chat_history w tr s (strip user_id))
         else (Inr [], s\<lparr>chat_history := []\<rparr>, tr))
      of
        (Inl e, s1, tr1) \<Rightarrow> (Inl e, s1, tr1)
      | (Inr validated_user_id, s1, tr1) \<Rightarrow>
          (case build_context (py_repr w) s1 user_query of
             Inl e \<Rightarrow> (Inl e, s1, tr1)
           | Inr context \<Rightarrow> (Inr (validated_user_id, full_prompt context user_query), s1, tr1)))"

text \<open>
  The \<^verbatim>\<open>try\<close> block of \<^verbatim>\<open>chat\<close>. \<open>LlmRaised\<close> stands for any exception raised in
  it up to reading \<^verbatim>\<open>response.choices[0].message.content\<close>; the assistant's text is
  \<open>None\<close> when the provider returned no content.
\<close>

definition chat_try ::
  "world \<Rightarrow> trace \<Rightarrow> session \<Rightarrow> string \<Rightarrow> string \<Rightarrow> string
     \<Rightarrow> (exn + string option \<times> string) \<times> session \<times> trace" where
  "chat_try w tr s user_query validated_user_id prompt =
     (case llm w tr prompt of
        LlmContent assistant_response \<Rightarrow>
          (let conv = current_conversation s @ [(user_query, assistant_response)];
               conv' = (if length conv > 5 then last_n 5 conv else conv)
           in (Inr (assistant_response, validated_user_id),
               s\<lparr>current_conversation := conv'\<rparr>,
               tr @ [Completion prompt]))
      | LlmRaised e \<Rightarrow>
          (Inr (Some (''Error generating response: '' @ exn_msg e), validated_user_id),
           s,
           tr @ [Completion prompt]))"

text \<open>
  \<open>chat\<close> returns the pair \<^verbatim>\<open>(assistant_response, validated_user_id)\<close> or raises; the
  session is the instance after the call.
\<close>

definition chat ::
  "world \<Rightarrow> trace \<Rightarrow> session \<Rightarrow> string \<Rightarrow> string
     \<Rightarrow> (exn + string option \<times> string) \<times> session \<times> trace" where
  "chat w tr s user_query user_id =
     (case chat_prepare w tr s user_query user_id of
        (Inl e, s1, tr1) \<Rightarrow> (Inl e, s1, tr1)
      | (Inr (validated_user_id, prompt), s1, tr1) \<Rightarrow>
          chat_try w tr1 s1 user_query validated_user_id prompt)"

subsection \<open>The constructor\<close>

text \<open>
  What \<^verbatim>\<open>SimpleExpenseRAG.__init__\<close> reads: the key of \<^verbatim>\<open>app.core.config\<close>, the
  environment variable, and whether \<^verbatim>\<open>openai.OpenAI(api_key=...)\<close> raises.
\<close>

record config =
  OPENAI_API_KEY :: "string option"
  getenv_OPENAI_API_KEY :: "string option"
  client_error :: "exn option"

definition validate_api_key_format :: "string \<Rightarrow> bool" where
  "validate_api_key_format api_key = (take 3 api_key = ''sk-'' \<and> length api_key \<ge> 51)"

definition falsy :: "string option \<Rightarrow> bool" where
  "falsy x = (case x of None \<Rightarrow> True | Some s \<Rightarrow> s = [])"

definition new_rag :: "config \<Rightarrow> exn + session" where
  "new_rag cfg =
     (let api_key = (if falsy (OPENAI_API_KEY cfg) then getenv_OPENAI_API_KEY cfg else OPENAI_API_KEY cfg)
      in case api_key of
           None \<Rightarrow> Inl (Exn ValueError ''OpenAI API key is required. Set OPENAI_API_KEY env var or pass it directly.'')
         | Some k \<Rightarrow>
             if k = [] then
               Inl (Exn ValueError ''OpenAI API key is required. Set OPENAI_API_KEY env var or pass it directly.'')
             else if \<not> validate_api_key_format k then
               Inl (Exn ValueError ''OpenAI API key appears to be invalid format. It should start with 'sk-' and be 51+ characters.'')
             else
               (case client_error cfg of
                  Some e \<Rightarrow> Inl (Exn ValueError (''Failed to initialize OpenAI client: '' @ exn_msg e))
                | None \<Rightarrow>
                    Inr \<lparr>current_conversation = [], chat_history = [],
                         expense_data = None, processed_chunks = []\<rparr>))"

section \<open>app/routes/chat.py\<close>

text \<open>
  \<^verbatim>\<open>user_rag_cache\<close> is a dict: an association list with distinct keys in insertion order.
  A new key goes to the end; \<^verbatim>\<open>del\<close> removes the entry of a key.
\<close>

type_synonym cache = "(string \<times> session) list"

record app_state =
  rag_instance :: "session option"
  user_rag_cache :: cache

definition MAX_CACHE_SIZE :: nat where
  "MAX_CACHE_SIZE = 100"

definition dict_del :: "string \<Rightarrow> cache \<Rightarrow> cache" where
  "dict_del k c = filter (\<lambda>kv. fst kv \<noteq> k) c"

text \<open>An instance is mutated in place: its entry keeps its position.\<close>

definition store :: "string \<Rightarrow> session \<Rightarrow> cache \<Rightarrow> cache" where
  "store k v c = map (\<lambda>kv. if fst kv = k then (k, v) else kv) c"

text \<open>\<^verbatim>\<open>int(len(user_rag_cache) * 0.2)\<close>; the float \<open>0.2\<close> is \<open>3602879701896397 * 2 ^ -54\<close>.\<close>

definition remove_count :: "nat \<Rightarrow> exn + int" where
  "remove_count n =
     bind_exn (float_of_int (int n)) (\<lambda>x.
     int_of_float (fmul x (Finite False 3602879701896397 (- 54))))"

definition cleanup_rag_cache :: "cache \<Rightarrow> exn + cache" where
  "cleanup_rag_cache c =
     bind_exn
       (if length c > MAX_CACHE_SIZE then
          bind_exn (remove_count (length c)) (\<lambda>k.
            Inr ([] @ take (nat k) (map fst c)))
        else Inr [])
       (\<lambda>users_to_remove. Inr (fold dict_del users_to_remove c))"

text \<open>
  The get-or-create step of \<^verbatim>\<open>chat_with_teddy\<close>: clean up if the cache is over its
  maximum, then create the instance of a key that is not there. The cache comes back as
  the step leaves it, also when the step raises.
\<close>

definition get_or_create :: "config \<Rightarrow> cache \<Rightarrow> string \<Rightarrow> (exn + session) \<times> cache" where
  "get_or_create cfg c user_id_key =
     (case (if length c > MAX_CACHE_SIZE then cleanup_rag_cache c else Inr c) of
        Inl e \<Rightarrow> (Inl e, c)
      | Inr c1 \<Rightarrow>
          (case
             (if user_id_key \<notin> set (map fst c1) then
                (case new_rag cfg of
                   Inl e \<Rightarrow> Inl e
                 | Inr r \<Rightarrow> Inr (c1 @ [(user_id_key, r)]))
              else Inr c1)
           of
             Inl e \<Rightarrow> (Inl e, c1)
           | Inr c2 \<Rightarrow>
               (case map_of c2 user_id_key of
                  None \<Rightarrow> (Inl (Exn KeyError user_id_key), c2)
                | Some user_rag_instance \<Rightarrow> (Inr user_rag_instance, c2))))"

definition lower_char :: "char \<Rightarrow> char" where
  "lower_char c =
     (let n = (of_char c :: nat)
      in if (65 \<le> n \<and> n \<le> 90) \<or> (192 \<le> n \<and> n \<le> 222 \<and> n \<noteq> 215) then char_of (n + 32) else c)"

definition lower :: "string \<Rightarrow> string" where
  "lower s = map lower_char s"

text \<open>\<^verbatim>\<open>needle in haystack\<close> for strings.\<close>

fun contains :: "string \<Rightarrow> string \<Rightarrow> bool" where
  "contains needle [] = (needle = [])"
| "contains needle (c # cs) = (take (length needle) (c # cs) = needle \<or> contains needle cs)"

definition is_greeting :: "string \<Rightarrow> bool" where
  "is_greeting message =
     list_ex (\<lambda>greeting. contains greeting (lower message)) [''hi'', ''hello'', ''hey'']"

datatype http_error = HTTPError int string

text \<open>The \<^verbatim>\<open>try\<close> block of \<^verbatim>\<open>chat_with_teddy\<close>; it returns the response text.\<close>

definition chat_with_teddy_try ::
  "config \<Rightarrow> world \<Rightarrow> trace \<Rightarrow> cache \<Rightarrow> string \<Rightarrow> string \<Rightarrow> (exn + string) \<times> cache \<times> trace" where
  "chat_with_teddy_try cfg w tr c message user_id =
     (let user_id_key = strip user_id in
      case get_or_create cfg c user_id_key of
        (Inl e, c2) \<Rightarrow> (Inl e, c2, tr)
      | (Inr user_rag_instance, c2) \<Rightarrow>
     (case fetch_user_specific_expense_data w tr (strip user_id) of
        (Inl e, tr1) \<Rightarrow> (Inl e, c2, tr1)
      | (Inr user_expense_data, tr1) \<Rightarrow>
     (case set_expense_data (py_repr w) user_rag_instance
             (case user_expense_data of
                Some d \<Rightarrow> if d \<noteq> [] then Some d else None
              | None \<Rightarrow> None) of
        (Inl e, inst1) \<Rightarrow> (Inl e, store user_id_key inst1 c2, tr1)
      | (Inr u, inst1) \<Rightarrow>
     (case chat w tr1 inst1 (strip message) (strip user_id) of
        (Inl e, inst2, tr2) \<Rightarrow> (Inl e, store user_id_key inst2 c2, tr2)
      | (Inr (assistant_response, validated_user_id), inst2, tr2) \<Rightarrow>
          (case assistant_response of
             None \<Rightarrow>
               (Inl (Exn HTTPException ''500: No response from assistant''),
                store user_id_key inst2 c2, tr2)
           | Some response \<Rightarrow>
               if response = [] then
                 (Inl (Exn HTTPException ''500: No response from assistant''),
                  store user_id_key inst2 c2, tr2)
               else if validated_user_id \<noteq> [] \<and> \<not> is_greeting message then
                 (case validate_and_send_to_history w tr2 (strip message) response validated_user_id of
                    (Inl e, tr3) \<Rightarrow> (Inl e, store user_id_key inst2 c2, tr3)
                  | (Inr success, tr3) \<Rightarrow> (Inr response, store user_id_key inst2 c2, tr3))
               else (Inr response, store user_id_key inst2 c2, tr2))))))"

text \<open>
  The handler: \<open>Inr (response, status)\<close> is the \<^verbatim>\<open>ChatResponse\<close>, \<open>Inl\<close> the
  \<^verbatim>\<open>HTTPException\<close> that leaves it.
\<close>

definition chat_with_teddy ::
  "config \<Rightarrow> world \<Rightarrow> trace \<Rightarrow> app_state \<Rightarrow> string \<Rightarrow> string
     \<Rightarrow> (http_error + string \<times> string) \<times> app_state \<times> trace" where
  "chat_with_teddy cfg w tr st message user_id =
     (if rag_instance st = None then
        (Inl (HTTPError 503 ''RAG system not initialized''), st, tr)
      else if blank message then
        (Inl (HTTPError 400 ''Message is required and cannot be empty''), st, tr)
      else if blank user_id then
        (Inl (HTTPError 400 ''User ID is required and cannot be empty. Chat history cannot be collected without a valid user ID.''), st, tr)
      else
        (case chat_with_teddy_try cfg w tr (user_rag_cache st) message user_id of
           (Inr response, c', tr') \<Rightarrow>
             (Inr (response, ''success''), st\<lparr>user_rag_cache := c'\<rparr>, tr')
         | (Inl e, c', tr') \<Rightarrow>
             (if is_ValueError e then
                (if contains ''Invalid user_id'' (exn_msg e) \<or> contains ''User not found'' (exn_msg e) then
                   Inl (HTTPError 404 (''Unable to fetch chat data. '' @ exn_msg e))
                 else Inl (HTTPError 400 (exn_msg e)))
              else Inl (HTTPError 500 (''Error processing chat: '' @ exn_msg e)),
              st\<lparr>user_rag_cache := c'\<rparr>, tr')))"

section \<open>Runs of turns\<close>

text \<open>
  A turn is successful when \<^verbatim>\<open>chat\<close> reaches the completion call and the provider
  answers: \<open>turn_answer\<close> is then the answer (the turn goes on to update the memory).
\<close>

definition turn_answer ::
  "world \<Rightarrow> trace \<Rightarrow> session \<Rightarrow> string \<Rightarrow> string \<Rightarrow> string option option" where
  "turn_answer w tr s user_query user_id =
     (case chat_prepare w tr s user_query user_id of
        (Inl e, s1, tr1) \<Rightarrow> None
      | (Inr (validated_user_id, prompt), s1, tr1) \<Rightarrow>
          (case llm w tr1 prompt of
             LlmContent a \<Rightarrow> Some a
           | LlmRaised e \<Rightarrow> None))"

text \<open>
  \<open>run_turns\<close> calls \<^verbatim>\<open>chat\<close> on one session for each \<open>(query, user_id)\<close> in turn and
  collects, in order, the exchange of every successful turn.
\<close>

fun run_turns ::
  "world \<Rightarrow> trace \<Rightarrow> session \<Rightarrow> (string \<times> string) list
     \<Rightarrow> (string \<times> string option) list \<times> session \<times> trace" where
  "run_turns w tr s [] = ([], s, tr)"
| "run_turns w tr s ((q, u) # rest) =
     (case chat w tr s q u of
        (r, s1, tr1) \<Rightarrow>
          (case run_turns w tr1 s1 rest of
             (log, s2, tr2) \<Rightarrow>
               ((case turn_answer w tr s q u of Some a \<Rightarrow> [(q, a)] | None \<Rightarrow> []) @ log, s2, tr2)))"

text \<open>The kind of an external call.\<close>

datatype call_kind = Validation | HistoryLoad | RecordFetch | Persist | CompletionCall

fun kind_of :: "request \<Rightarrow> call_kind" where
  "kind_of (ValidateGet u) = Validation"
| "kind_of (HistoryGet u) = HistoryLoad"
| "kind_of (ReportGet u) = RecordFetch"
| "kind_of (HistoryPost u h a) = Persist"
| "kind_of (Completion p) = CompletionCall"

text \<open>The cache after get-or-create steps for the keys \<open>ks\<close>, one after the other.\<close>

fun get_or_create_all :: "config \<Rightarrow> cache \<Rightarrow> string list \<Rightarrow> cache" where
  "get_or_create_all cfg c [] = c"
| "get_or_create_all cfg c (k # ks) = get_or_create_all cfg (snd (get_or_create cfg c k)) ks"

text \<open>The cache's keys are distinct and it holds at most one entry more than its maximum.\<close>

definition cache_inv :: "cache \<Rightarrow> bool" where
  "cache_inv c = (distinct (map fst c) \<and> length c \<le> Suc MAX_CACHE_SIZE)"

section \<open>The specification's wording\<close>

subsection \<open>The three sections of the assembled context\<close>

text \<open>
  The context as the specification describes it: three labelled sections, each left out
  when its collection is empty. Entries are numbered from 1 in the order of the collection.
\<close>

definition numbered :: "'a list \<Rightarrow> (nat \<times> 'a) list" where
  "numbered xs = zip [1 ..< Suc (length xs)] xs"

definition spec_chunk_section :: "chunk list \<Rightarrow> string list" where
  "spec_chunk_section chunks =
     (if chunks = [] then []
      else ''=== ALL EXPENSE DATA ==='' #
           map (\<lambda>(i, c). ''Data '' @ show_nat i @ '' ('' @ chunk_type c @ ''):\<newline>'' @ chunk_text c)
               (numbered chunks))"

text \<open>The text of a turn's field, empty when the turn has no such field.\<close>

definition turn_field :: "json \<Rightarrow> string \<Rightarrow> json" where
  "turn_field conv k =
     (case conv of
        JDict kvs \<Rightarrow> (case map_of kvs k of Some v \<Rightarrow> v | None \<Rightarrow> JStr [])
      | _ \<Rightarrow> JStr [])"

definition spec_history_section :: "(json \<Rightarrow> string) \<Rightarrow> json list \<Rightarrow> string list" where
  "spec_history_section R history =
     (if history = [] then []
      else ''\<newline>=== PREVIOUS CONVERSATIONS ==='' #
           concat (map (\<lambda>(i, conv).
                          [''Previous '' @ show_nat i @ '':'',
                           ''Human: '' @ py_str R (turn_field conv ''human''),
                           ''Assistant: '' @ py_str R (turn_field conv ''assistant'')])
                       (numbered (last_n 3 history))))"

definition spec_memory_section :: "(string \<times> string option) list \<Rightarrow> string list" where
  "spec_memory_section memory =
     (if memory = [] then []
      else ''\<newline>=== CURRENT CONVERSATION ==='' #
           concat (map (\<lambda>(i, (human_msg, ai_msg)).
                          [''Exchange '' @ show_nat i @ '':'',
                           ''Human: '' @ human_msg,
                           ''Assistant: '' @ str_opt ai_msg])
                       (numbered memory)))"

section \<open>Decimal amounts\<close>


section \<open>Totals of a chunk\<close>



section \<open>Example inputs\<close>

text \<open>A store that answers every request with 200 and an empty list, and a provider that
  answers \<open>ok\<close>.\<close>

definition world_ok :: world where
  "world_ok =
     \<lparr>http = (\<lambda>tr rq. HttpResponse 200 (Json (JList []))),
      llm = (\<lambda>tr p. LlmContent (Some ''ok'')),
      py_repr = (\<lambda>v. ''?'')\<rparr>"

text \<open>The same store, answering the report request with 200 and the body \<open>b\<close>.\<close>

definition world_report :: "json \<Rightarrow> world" where
  "world_report b =
     world_ok\<lparr>http := (\<lambda>tr rq. case rq of
                             ReportGet u \<Rightarrow> HttpResponse 200 (Json b)
                           | _ \<Rightarrow> HttpResponse 200 (Json (JList [])))\<rparr>"

text \<open>A store that knows nobody: every request is answered with 404.\<close>

definition world_404 :: world where
  "world_404 = world_ok\<lparr>http := (\<lambda>tr rq. HttpResponse 404 (Json JNull))\<rparr>"

text \<open>A session with two chunks, four persisted turns and two exchanges in memory.\<close>

definition session_example :: session where
  "session_example =
     \<lparr>current_conversation = [(''q1'', Some ''a1''), (''q2'', None)],
      chat_history =
        [JDict [(''human'', JStr ''h1''), (''assistant'', JStr ''r1'')],
         JDict [(''human'', JStr ''h2'')],
         JDict [(''assistant'', JInt 5)],
         JDict [(''human'', JStr ''h4''), (''assistant'', JStr ''r4'')]],
      expense_data = None,
      processed_chunks =
        [\<lparr>chunk_type = ''daily'', chunk_key = Date (JStr ''d1''), chunk_text = ''T1'',
          total_income = PInt 0, total_expenses = PInt 50, net = PInt (- 50)\<rparr>,
         \<lparr>chunk_type = ''monthly'', chunk_key = Period (JStr ''m1''), chunk_text = ''T2'',
          total_income = PInt 0, total_expenses = PInt 50, net = PInt (- 50)\<rparr>]\<rparr>"

text \<open>A configuration with a well-formed key.\<close>

definition config_ok :: config where
  "config_ok =
     \<lparr>OPENAI_API_KEY = Some (''sk-'' @ replicate 48 (CHR ''x'')),
      getenv_OPENAI_API_KEY = None,
      client_error = None\<rparr>"

definition fresh_session :: session where
  "fresh_session =
     \<lparr>current_conversation = [], chat_history = [], expense_data = None, processed_chunks = []\<rparr>"

text \<open>The store of \<open>world_ok\<close> with a provider that raises.\<close>

definition world_llm_down :: world where
  "world_llm_down = world_ok\<lparr>llm := (\<lambda>tr p. LlmRaised (Exn OtherException ''Connection error.''))\<rparr>"

definition six_turns :: "(string \<times> string) list" where
  "six_turns =
     [(''q1'', ''u1''), (''q2'', ''u1''), (''q3'', ''u1''),
      (''q4'', ''u1''), (''q5'', ''u1''), (''q6'', ''u1'')]"

text \<open>The application after start-up: the global instance is set, the cache is empty.\<close>

definition app_example :: app_state where
  "app_example = \<lparr>rag_instance = Some fresh_session, user_rag_cache = []\<rparr>"

text \<open>101 different identifiers: \<open>u\<close>, \<open>uu\<close>, \<open>uuu\<close>, ...\<close>

definition users_101 :: "string list" where
  "users_101 = map (\<lambda>i. replicate i (CHR ''u'')) [1 ..< 102]"







section \<open>Theorems\<close>

subsection \<open>Strings\<close>

lemma dropWhile_snoc_keep: "\<not> P x \<Longrightarrow> dropWhile P (ys @ [x]) = dropWhile P ys @ [x]"
  by (induction ys) auto

lemma strip_strip: "strip (strip s) = strip s"
proof -
  define t where "t = dropWhile isspace s"
  define u where "u = rev (dropWhile isspace (rev t))"
  have 1: "dropWhile isspace u = u"
  proof (cases t)
    case Nil then show ?thesis by (simp add: u_def)
  next
    case (Cons x t')
    then have "\<not> isspace x" unfolding t_def
      by (metis hd_dropWhile list.sel(1) list.distinct(1))
    then have "u = x # rev (dropWhile isspace (rev t'))"
      by (simp add: u_def Cons dropWhile_snoc_keep)
    then show ?thesis using \<open>\<not> isspace x\<close> by simp
  qed
  have 2: "dropWhile isspace (rev u) = rev u"
    by (simp add: u_def)
  show ?thesis unfolding strip_def using 1 2 by (simp add: u_def t_def)
qed

subsection \<open>Identity Validator\<close>

lemma is_list_iff: "is_list v = (\<exists>xs. v = JList xs)"
  by (cases v) auto

lemma blank_strip: "blank (strip u) = blank u"
  by (auto simp: blank_def strip_strip) (simp add: strip_def)

lemma validate_blank: "blank u \<Longrightarrow> validate_user_exists w tr u = (Inr (False, []), tr)"
  by (simp add: validate_user_exists_def)

lemma validate_nonblank:
  "\<not> blank u \<Longrightarrow>
   validate_user_exists w tr u =
     (Inr (if \<exists>xs. http w tr (ValidateGet (strip u)) = HttpResponse 200 (Json (JList xs))
           then (True, strip u) else (False, [])),
      tr @ [ValidateGet (strip u)])"
  unfolding validate_user_exists_def validate_user_exists_try_def
  by (auto simp: is_list_iff split: http_outcome.splits body.splits)

text \<open>
  C5. \<open>validate_user_exists\<close> never raises. For an empty or whitespace-only identifier it
  returns \<open>(False, "")\<close> without any request. Otherwise it issues one request for the
  trimmed identifier and returns \<open>(True, trimmed identifier)\<close> exactly when the store answers
  200 with a list-shaped body (the empty list included); for every other outcome (a raised
  network error, a 404, a 400, any other status, a 200 whose body does not parse or is not a
  list) it returns \<open>(False, "")\<close>.
\<close>

theorem validate_user_exists_spec:
  "validate_user_exists w tr user_id =
     (if blank user_id then (Inr (False, []), tr)
      else if \<exists>xs. http w tr (ValidateGet (strip user_id)) = HttpResponse 200 (Json (JList xs))
      then (Inr (True, strip user_id), tr @ [ValidateGet (strip user_id)])
      else (Inr (False, []), tr @ [ValidateGet (strip user_id)]))"
proof (cases "blank user_id")
  case True
  then show ?thesis by (simp add: validate_blank)
next
  case False
  then show ?thesis by (simp add: validate_nonblank)
qed

theorem validate_user_exists_spec_witness:
  "validate_user_exists world_ok [] '' u1 '' = (Inr (True, ''u1''), [ValidateGet ''u1''])
   \<and> validate_user_exists world_ok [] ''  '' = (Inr (False, []), [])
   \<and> validate_user_exists (world_ok\<lparr>http := \<lambda>tr rq. HttpResponse 404 (Json JNull)\<rparr>) [] ''u1''
       = (Inr (False, []), [ValidateGet ''u1''])"
  using validate_user_exists_spec [of world_ok "[]" "'' u1 ''"]
        validate_user_exists_spec [of world_ok "[]" "''  ''"]
        validate_user_exists_spec [of "world_ok\<lparr>http := \<lambda>tr rq. HttpResponse 404 (Json JNull)\<rparr>" "[]" "''u1''"]
  by (simp add: blank_def strip_def isspace_def world_ok_def)

subsection \<open>History Loader\<close>

text \<open>
  C6. \<open>fetch_chat_history_for_validated_user\<close> never raises: its result is always a
  returned list. It is the list of the body when the store answers 200 with a list-shaped
  body, and the empty list for every other outcome (a raised network error or timeout, a
  status other than 200, a body that does not parse, a body that is not a list).
\<close>

theorem history_loader_total:
  "fetch_chat_history_for_validated_user w tr user_id =
     (Inr (case http w tr (HistoryGet user_id) of
             HttpResponse status (Json (JList xs)) \<Rightarrow> if status = 200 then xs else []
           | _ \<Rightarrow> []),
      tr @ [HistoryGet user_id])"
  unfolding fetch_chat_history_for_validated_user_def fetch_chat_history_try_def
  by (auto split: http_outcome.splits body.splits json.splits)

subsection \<open>Record fetch\<close>

lemma fetch_blank: "blank u \<Longrightarrow> fetch_user_specific_expense_data w tr u = (Inr None, tr)"
  by (simp add: fetch_user_specific_expense_data_def)

lemma fetch_nonblank:
  "\<not> blank u \<Longrightarrow>
   fetch_user_specific_expense_data w tr u =
     (if \<not> (\<exists>xs. http w tr (ValidateGet (strip u)) = HttpResponse 200 (Json (JList xs)))
      then (Inr None, tr @ [ValidateGet (strip u)])
      else
        (Inr (case http w (tr @ [ValidateGet (strip u)]) (ReportGet (strip u)) of
                HttpResponse status (Json (JDict kvs)) \<Rightarrow>
                  if status = 200 \<and> kvs \<noteq> [] then Some kvs else None
              | _ \<Rightarrow> None),
         tr @ [ValidateGet (strip u), ReportGet (strip u)]))"
  by (auto simp: fetch_user_specific_expense_data_def validate_nonblank blank_strip strip_strip
        fetch_report_try_def
      split: http_outcome.splits body.splits json.splits)

text \<open>
  C9. \<open>fetch_user_specific_expense_data\<close> never raises. For a non-blank identifier that the
  store validates, it returns the report exactly when the record store answers 200 with a
  body that is a non-empty dict; it returns none when the body is the empty object, as it
  does for a body that is not a dict, a body that does not parse, a status other than 200
  and a raised request.
\<close>

theorem fetch_report_spec:
  "fetch_user_specific_expense_data w tr user_id =
     (if blank user_id then (Inr None, tr)
      else if \<not> (\<exists>xs. http w tr (ValidateGet (strip user_id)) = HttpResponse 200 (Json (JList xs)))
      then (Inr None, tr @ [ValidateGet (strip user_id)])
      else
        (Inr (case http w (tr @ [ValidateGet (strip user_id)]) (ReportGet (strip user_id)) of
                HttpResponse status (Json (JDict kvs)) \<Rightarrow>
                  if status = 200 \<and> kvs \<noteq> [] then Some kvs else None
              | _ \<Rightarrow> None),
         tr @ [ValidateGet (strip user_id), ReportGet (strip user_id)]))"
proof (cases "blank user_id")
  case True
  then show ?thesis by (simp add: fetch_blank)
next
  case False
  then show ?thesis by (simp add: fetch_nonblank)
qed

theorem fetch_report_spec_witness:
  "fetch_user_specific_expense_data (world_report (JDict [])) [] ''u1''
     = (Inr None, [ValidateGet ''u1'', ReportGet ''u1''])
   \<and> fetch_user_specific_expense_data (world_report (JDict [(''daily'', JList [])])) [] ''u1''
     = (Inr (Some [(''daily'', JList [])]), [ValidateGet ''u1'', ReportGet ''u1''])
   \<and> fetch_user_specific_expense_data (world_report (JList [])) [] ''u1''
     = (Inr None, [ValidateGet ''u1'', ReportGet ''u1''])"
  using fetch_report_spec [of "world_report (JDict [])" "[]" "''u1''"]
        fetch_report_spec [of "world_report (JDict [(''daily'', JList [])])" "[]" "''u1''"]
        fetch_report_spec [of "world_report (JList [])" "[]" "''u1''"]
  by (simp add: blank_def strip_def isspace_def world_report_def world_ok_def)

subsection \<open>Persisting a turn\<close>

lemma persist_short:
  "m = [] \<or> a = [] \<or> blank u \<Longrightarrow> validate_and_send_to_history w tr m a u = (Inr False, tr)"
  by (auto simp: validate_and_send_to_history_def)

lemma persist_nonblank:
  "m \<noteq> [] \<Longrightarrow> a \<noteq> [] \<Longrightarrow> \<not> blank u \<Longrightarrow>
   validate_and_send_to_history w tr m a u =
     (if \<not> (\<exists>xs. http w tr (ValidateGet (strip u)) = HttpResponse 200 (Json (JList xs)))
      then (Inr False, tr @ [ValidateGet (strip u)])
      else
        (Inr (case http w (tr @ [ValidateGet (strip u)]) (HistoryPost (strip u) (strip m) (strip a)) of
                HttpResponse status b \<Rightarrow> status = 200 \<or> status = 201
              | HttpRaised e \<Rightarrow> False),
         tr @ [ValidateGet (strip u), HistoryPost (strip u) (strip m) (strip a)]))"
  by (auto simp: validate_and_send_to_history_def validate_nonblank blank_strip strip_strip Let_def
      split: http_outcome.splits)

text \<open>
  C10. \<open>validate_and_send_to_history\<close> never raises. When the human text, the assistant text
  or the identifier is empty (or the identifier blank) it returns false and issues no request.
  Otherwise its first request is a fresh identity validation of the trimmed identifier; when
  that validation fails it returns false and no write request follows. The write request to
  the history-create endpoint is issued only after a successful validation.
\<close>

theorem persist_spec:
  "validate_and_send_to_history w tr user_message assistant_response user_id =
     (if user_message = [] \<or> assistant_response = [] \<or> blank user_id then (Inr False, tr)
      else if \<not> (\<exists>xs. http w tr (ValidateGet (strip user_id)) = HttpResponse 200 (Json (JList xs)))
      then (Inr False, tr @ [ValidateGet (strip user_id)])
      else
        (Inr (case http w (tr @ [ValidateGet (strip user_id)])
                     (HistoryPost (strip user_id) (strip user_message) (strip assistant_response)) of
                HttpResponse status b \<Rightarrow> status = 200 \<or> status = 201
              | HttpRaised e \<Rightarrow> False),
         tr @ [ValidateGet (strip user_id),
               HistoryPost (strip user_id) (strip user_message) (strip assistant_response)]))"
proof (cases "user_message = [] \<or> assistant_response = [] \<or> blank user_id")
  case True
  then show ?thesis using persist_short [OF True] by simp
next
  case False
  then show ?thesis using persist_nonblank [of user_message assistant_response user_id w tr] by simp
qed

theorem persist_spec_witness:
  "validate_and_send_to_history world_404 [] ''what did I spend?'' ''ok'' ''ghost''
     = (Inr False, [ValidateGet ''ghost''])
   \<and> validate_and_send_to_history world_ok [] '''' ''ok'' ''u1'' = (Inr False, [])
   \<and> validate_and_send_to_history world_ok [] ''q'' ''ok'' ''u1''
     = (Inr True, [ValidateGet ''u1'', HistoryPost ''u1'' ''q'' ''ok''])"
  using persist_spec [of world_404 "[]" "''what did I spend?''" "''ok''" "''ghost''"]
        persist_spec [of world_ok "[]" "''''" "''ok''" "''u1''"]
        persist_spec [of world_ok "[]" "''q''" "''ok''" "''u1''"]
  by (simp add: blank_def strip_def isspace_def world_404_def world_ok_def)

subsection \<open>Context Assembler\<close>

lemma numbered_from: "zip [i ..< i + length (x # xs)] (x # xs) = (i, x) # zip [Suc i ..< Suc i + length xs] xs"
  by (simp add: upt_conv_Cons del: upt_Suc)

lemma add_chunks_eq:
  "add_chunks i cs parts =
     parts @ map (\<lambda>(i, c). ''Data '' @ show_nat i @ '' ('' @ chunk_type c @ ''):\<newline>'' @ chunk_text c)
               (zip [i ..< i + length cs] cs)"
proof (induction cs arbitrary: i parts)
  case Nil
  then show ?case by simp
next
  case (Cons c cs)
  show ?case
    by (simp only: add_chunks.simps Cons.IH numbered_from) simp
qed

lemma dict_get_turn_field: "is_dict c \<Longrightarrow> dict_get c k (JStr []) = Inr (turn_field c k)"
  by (cases c) (auto simp: turn_field_def split: option.splits)

lemma add_history_eq:
  "\<forall>c \<in> set convs. is_dict c \<Longrightarrow>
   add_history R i convs parts =
     Inr (parts @ concat (map (\<lambda>(i, conv).
                          [''Previous '' @ show_nat i @ '':'',
                           ''Human: '' @ py_str R (turn_field conv ''human''),
                           ''Assistant: '' @ py_str R (turn_field conv ''assistant'')])
               (zip [i ..< i + length convs] convs)))"
proof (induction convs arbitrary: i parts)
  case Nil
  then show ?case by simp
next
  case (Cons c cs)
  from Cons.prems have c: "is_dict c" by simp
  from Cons.prems have rest: "\<forall>c \<in> set cs. is_dict c" by simp
  have step: "add_history R i (c # cs) parts =
      add_history R (Suc i) cs (parts @
                   [''Previous '' @ show_nat i @ '':'',
                    ''Human: '' @ py_str R (turn_field c ''human''),
                    ''Assistant: '' @ py_str R (turn_field c ''assistant'')])"
    by (simp add: dict_get_turn_field [OF c])
  show ?case
    unfolding step Cons.IH [OF rest] numbered_from by simp
qed

lemma add_history_raises:
  "\<not> (\<forall>c \<in> set convs. is_dict c) \<Longrightarrow> \<exists>e. add_history R i convs parts = Inl e"
proof (induction convs arbitrary: i parts)
  case Nil
  then show ?case by simp
next
  case (Cons c cs)
  show ?case
  proof (cases c)
    case (JDict kvs)
    with Cons.prems have "\<not> (\<forall>c \<in> set cs. is_dict c)" by simp
    from Cons.IH [OF this] show ?thesis
      by (simp add: JDict split: option.splits)
  qed simp_all
qed

lemma add_exchanges_eq:
  "add_exchanges i xs parts =
     parts @ concat (map (\<lambda>(i, (human_msg, ai_msg)).
                          [''Exchange '' @ show_nat i @ '':'',
                           ''Human: '' @ human_msg,
                           ''Assistant: '' @ str_opt ai_msg])
               (zip [i ..< i + length xs] xs))"
proof (induction xs arbitrary: i parts)
  case Nil
  then show ?case by simp
next
  case (Cons x xs)
  obtain h a where x: "x = (h, a)" by (cases x)
  show ?case
    unfolding x
    by (simp only: add_exchanges.simps Cons.IH numbered_from) simp
qed

text \<open>
  C8. For every list of chunks, every persisted history whose last three entries are turns
  (JSON objects) and every in-session memory, the assembled context is the chunk section
  (all chunks in their order), then the history section (the last three persisted turns,
  oldest first, with their human and assistant text), then the memory section (all
  exchanges, oldest first); a section whose collection is empty is left out, header
  included. The context text is these parts joined by newlines.
\<close>

theorem build_context_sections:
  assumes "\<forall>conv \<in> set (last_n 3 (chat_history s)). is_dict conv"
  shows "context_parts R s =
           Inr (spec_chunk_section (processed_chunks s)
                @ spec_history_section R (chat_history s)
                @ spec_memory_section (current_conversation s))
         \<and> build_context R s query =
           Inr (join_nl (spec_chunk_section (processed_chunks s)
                @ spec_history_section R (chat_history s)
                @ spec_memory_section (current_conversation s)))"
proof -
  have n: "[1 ..< Suc (length xs)] = [1 ..< 1 + length xs]" for xs :: "'a list" by simp
  have "context_parts R s =
           Inr (spec_chunk_section (processed_chunks s)
                @ spec_history_section R (chat_history s)
                @ spec_memory_section (current_conversation s))"
    unfolding context_parts_def spec_chunk_section_def spec_history_section_def
      spec_memory_section_def numbered_def n
    by (simp add: add_chunks_eq add_history_eq [OF assms] add_exchanges_eq bind_exn_def Let_def)
  then show ?thesis by (simp add: build_context_def bind_exn_def)
qed


theorem build_context_sections_witness:
  "context_parts (\<lambda>v. ''?'') session_example =
       Inr [''=== ALL EXPENSE DATA ==='',
            ''Data 1 (daily):\<newline>T1'',
            ''Data 2 (monthly):\<newline>T2'',
            ''\<newline>=== PREVIOUS CONVERSATIONS ==='',
            ''Previous 1:'', ''Human: h2'', ''Assistant: '',
            ''Previous 2:'', ''Human: '', ''Assistant: 5'',
            ''Previous 3:'', ''Human: h4'', ''Assistant: r4'',
            ''\<newline>=== CURRENT CONVERSATION ==='',
            ''Exchange 1:'', ''Human: q1'', ''Assistant: a1'',
            ''Exchange 2:'', ''Human: q2'', ''Assistant: None'']
   \<and> context_parts (\<lambda>v. ''?'') (session_example\<lparr>chat_history := [], processed_chunks := []\<rparr>) =
       Inr [''\<newline>=== CURRENT CONVERSATION ==='',
            ''Exchange 1:'', ''Human: q1'', ''Assistant: a1'',
            ''Exchange 2:'', ''Human: q2'', ''Assistant: None'']"
proof -
  have h: "\<forall>conv \<in> set (last_n 3 (chat_history session_example)). is_dict conv"
    by (simp add: session_example_def last_n_def)
  have h2: "\<forall>conv \<in> set (last_n 3 (chat_history (session_example\<lparr>chat_history := [], processed_chunks := []\<rparr>))). is_dict conv"
    by (simp add: last_n_def)
  show ?thesis
    using h build_context_sections [OF h, of "\<lambda>v. ''?''"] build_context_sections [OF h2, of "\<lambda>v. ''?''"]
    by (simp add: session_example_def last_n_def spec_chunk_section_def spec_history_section_def
         spec_memory_section_def numbered_def turn_field_def str_opt_def digit_char_def show_int_def
         upt_conv_Cons)
qed

subsection \<open>In-session memory\<close>

lemma last_n_short: "length xs \<le> n \<Longrightarrow> last_n n xs = xs"
  by (simp add: last_n_def)

lemma length_last_n: "length (last_n n xs) \<le> n"
  by (simp add: last_n_def)

lemma last_n_snoc: "0 < n \<Longrightarrow> last_n n (last_n n xs @ [x]) = last_n n (xs @ [x])"
proof (cases "length xs \<le> n")
  case True
  then show ?thesis by (simp add: last_n_short)
next
  case False
  assume "0 < n"
  with False have a: "length xs - (length xs - n) + 1 - n = 1" by simp
  from False have b: "Suc (length xs) - n = Suc (length xs - n)" by simp
  show ?thesis
    using False \<open>0 < n\<close> by (simp add: last_n_def a b)
qed

lemma chat_try_memory:
  "chat_try w tr s q vid p = (r, s1, tr1) \<Longrightarrow>
   current_conversation s = last_n 5 m \<Longrightarrow>
   current_conversation s1 =
     last_n 5 (m @ (case llm w tr p of LlmContent a \<Rightarrow> [(q, a)] | LlmRaised e \<Rightarrow> []))"
proof (cases "llm w tr p")
  case (LlmRaised e)
  assume "chat_try w tr s q vid p = (r, s1, tr1)" "current_conversation s = last_n 5 m"
  then show ?thesis using LlmRaised by (auto simp: chat_try_def)
next
  case (LlmContent a)
  assume c: "chat_try w tr s q vid p = (r, s1, tr1)" and m: "current_conversation s = last_n 5 m"
  let ?conv = "last_n 5 m @ [(q, a)]"
  from c LlmContent m have s1: "current_conversation s1 = (if length ?conv > 5 then last_n 5 ?conv else ?conv)"
    by (auto simp: chat_try_def Let_def)
  have "(if length ?conv > 5 then last_n 5 ?conv else ?conv) = last_n 5 ?conv"
    by (simp add: last_n_short)
  also have "\<dots> = last_n 5 (m @ [(q, a)])" by (simp add: last_n_snoc)
  finally show ?thesis using s1 LlmContent by simp
qed

lemma load_history_memory:
  "load_user_chat_history w tr s u = (r, s1, tr1) \<Longrightarrow> current_conversation s1 = current_conversation s"
  by (auto simp: load_user_chat_history_def validate_user_exists_def
        fetch_chat_history_for_validated_user_def
      split: if_splits sum.splits prod.splits)

lemma chat_prepare_memory:
  "chat_prepare w tr s q u = (r, s1, tr1) \<Longrightarrow> current_conversation s1 = current_conversation s"
  by (auto simp: chat_prepare_def dest: load_history_memory split: if_splits sum.splits prod.splits)

lemma chat_memory:
  "chat w tr s q u = (r, s1, tr1) \<Longrightarrow>
   current_conversation s = last_n 5 m \<Longrightarrow>
   current_conversation s1 =
     last_n 5 (m @ (case turn_answer w tr s q u of Some a \<Rightarrow> [(q, a)] | None \<Rightarrow> []))"
proof -
  assume c: "chat w tr s q u = (r, s1, tr1)" and m: "current_conversation s = last_n 5 m"
  obtain r0 s0 tr0 where p: "chat_prepare w tr s q u = (r0, s0, tr0)"
    by (cases "chat_prepare w tr s q u") auto
  from chat_prepare_memory [OF p] m have m0: "current_conversation s0 = last_n 5 m" by simp
  show ?thesis
  proof (cases r0)
    case (Inl e)
    with c p m0 show ?thesis by (simp add: chat_def turn_answer_def)
  next
    case (Inr vp)
    obtain vid prompt where vp: "vp = (vid, prompt)" by (cases vp)
    from c p Inr vp have t: "chat_try w tr0 s0 q vid prompt = (r, s1, tr1)"
      by (simp add: chat_def)
    from chat_try_memory [OF t m0] show ?thesis
      using p Inr vp by (simp add: turn_answer_def split: llm_outcome.splits)
  qed
qed

lemma run_turns_memory:
  "run_turns w tr s turns = (log, s', tr') \<Longrightarrow>
   current_conversation s = last_n 5 m \<Longrightarrow>
   current_conversation s' = last_n 5 (m @ log)"
proof (induction turns arbitrary: tr s m log s' tr')
  case Nil
  then show ?case by simp
next
  case (Cons t turns)
  obtain q u where t: "t = (q, u)" by (cases t)
  obtain r s1 tr1 where c: "chat w tr s q u = (r, s1, tr1)"
    by (cases "chat w tr s q u") auto
  obtain log1 s2 tr2 where rt: "run_turns w tr1 s1 turns = (log1, s2, tr2)"
    by (cases "run_turns w tr1 s1 turns") auto
  let ?x = "(case turn_answer w tr s q u of Some a \<Rightarrow> [(q, a)] | None \<Rightarrow> [])"
  from Cons.prems(1) t c rt have log: "log = ?x @ log1" and s': "s2 = s'" and tr': "tr2 = tr'"
    by simp_all
  from chat_memory [OF c Cons.prems(2)] have "current_conversation s1 = last_n 5 (m @ ?x)" .
  from Cons.IH [OF rt [unfolded s' tr'] this] show ?case by (simp add: log)
qed

text \<open>
  C4. A session starts with an empty memory. After any run of calls of \<open>chat\<close> on it,
  whatever the outcomes of the turns, the memory holds at most 5 exchanges: it is the last 5
  exchanges of the successful turns of the run, in their order, the newest last. After
  exactly 6 successful turns the first exchange is gone and the other five remain in order.
\<close>

theorem memory_bounded:
  assumes "new_rag cfg = Inr s0"
      and "run_turns w tr s0 turns = (log, s, tr')"
  shows "length (current_conversation s) \<le> 5
         \<and> current_conversation s = last_n 5 log
         \<and> (\<forall>t1 t2 t3 t4 t5 t6. log = [t1, t2, t3, t4, t5, t6] \<longrightarrow>
               current_conversation s = [t2, t3, t4, t5, t6])"
proof -
  from assms(1) have "current_conversation s0 = last_n 5 []"
    by (auto simp: new_rag_def last_n_def Let_def split: option.splits if_splits)
  from run_turns_memory [OF assms(2) this] have m: "current_conversation s = last_n 5 log" by simp
  then show ?thesis by (auto simp: length_last_n) (simp add: last_n_def)
qed


lemma new_rag_config_ok: "new_rag config_ok = Inr fresh_session"
  by (simp add: new_rag_def config_ok_def fresh_session_def falsy_def validate_api_key_format_def)

lemma context_parts_no_history:
  "chat_history s = [] \<Longrightarrow> \<exists>ps. context_parts R s = Inr ps"
  by (simp add: context_parts_def bind_exn_def Let_def)

lemma turn_answer_world_ok:
  assumes "\<not> blank u"
  shows "turn_answer world_ok tr s q u = Some (Some ''ok'')"
proof -
  from assms have u: "u \<noteq> []" "strip u \<noteq> []" by (auto simp: blank_def)
  from assms have nb: "\<not> blank (strip u)" by (simp add: blank_strip)
  have v: "validate_user_exists world_ok tr (strip u) = (Inr (True, strip u), tr @ [ValidateGet (strip u)])"
    using nb by (simp add: validate_nonblank strip_strip world_ok_def)
  have h: "fetch_chat_history_for_validated_user world_ok tr1 v = (Inr [], tr1 @ [HistoryGet v])" for tr1 v
    by (simp add: fetch_chat_history_for_validated_user_def fetch_chat_history_try_def world_ok_def)
  have l: "load_user_chat_history world_ok tr s (strip u) =
        (Inr (strip u), s\<lparr>chat_history := []\<rparr>, tr @ [ValidateGet (strip u), HistoryGet (strip u)])"
    using nb by (simp add: load_user_chat_history_def v h strip_strip)
  obtain ps where ps: "context_parts (py_repr world_ok) (s\<lparr>chat_history := []\<rparr>) = Inr ps"
    using context_parts_no_history [of "s\<lparr>chat_history := []\<rparr>"] by auto
  show ?thesis
    using u by (simp add: turn_answer_def chat_prepare_def l build_context_def ps bind_exn_def)
      (simp add: world_ok_def)
qed

lemma run_log_world_ok:
  "\<forall>t \<in> set turns. \<not> blank (snd t) \<Longrightarrow>
   fst (run_turns world_ok tr s turns) = map (\<lambda>t. (fst t, Some ''ok'')) turns"
proof (induction turns arbitrary: tr s)
  case Nil
  then show ?case by simp
next
  case (Cons t turns)
  obtain q u where t: "t = (q, u)" by (cases t)
  with Cons.prems have nb: "\<not> blank u" by simp
  from Cons.prems have rest: "\<forall>t \<in> set turns. \<not> blank (snd t)" by simp
  show ?case
    using Cons.IH [OF rest]
    by (simp add: t turn_answer_world_ok [OF nb] split: prod.splits)
       (metis fst_conv)
qed

theorem memory_bounded_witness:
  "new_rag config_ok = Inr fresh_session
   \<and> fst (run_turns world_ok [] fresh_session six_turns) =
       [(''q1'', Some ''ok''), (''q2'', Some ''ok''), (''q3'', Some ''ok''),
        (''q4'', Some ''ok''), (''q5'', Some ''ok''), (''q6'', Some ''ok'')]
   \<and> current_conversation (fst (snd (run_turns world_ok [] fresh_session six_turns))) =
       [(''q2'', Some ''ok''), (''q3'', Some ''ok''),
        (''q4'', Some ''ok''), (''q5'', Some ''ok''), (''q6'', Some ''ok'')]"
proof -
  let ?X = "run_turns world_ok [] fresh_session six_turns"
  have h2: "?X = (fst ?X, fst (snd ?X), snd (snd ?X))" by simp
  have nb: "\<forall>t \<in> set six_turns. \<not> blank (snd t)"
    by (simp add: six_turns_def blank_def strip_def isspace_def)
  have log: "fst ?X = [(''q1'', Some ''ok''), (''q2'', Some ''ok''), (''q3'', Some ''ok''),
        (''q4'', Some ''ok''), (''q5'', Some ''ok''), (''q6'', Some ''ok'')]"
    unfolding run_log_world_ok [OF nb] by (simp add: six_turns_def)
  show ?thesis
    using memory_bounded [OF new_rag_config_ok h2] new_rag_config_ok log
    by (simp add: last_n_def)
qed

subsection \<open>Provider failure\<close>

lemma chat_prepare_valid:
  assumes "user_id \<noteq> []"
      and "chat_prepare w tr s q user_id = (Inr (vid, prompt), s1, tr1)"
  shows "vid = strip user_id
         \<and> (\<exists>xs. http w tr (ValidateGet (strip user_id)) = HttpResponse 200 (Json (JList xs)))"
proof -
  from assms have nb: "\<not> blank (strip user_id)"
    by (auto simp: chat_prepare_def blank_def strip_strip split: if_splits)
  from assms nb show ?thesis
    by (auto simp: chat_prepare_def load_user_chat_history_def validate_nonblank strip_strip
          fetch_chat_history_for_validated_user_def
        split: if_splits sum.splits prod.splits)
qed

text \<open>
  C7. When a turn with an identifier reaches the completion call (so identity validation
  has succeeded) and the provider raises, \<open>chat\<close> returns normally: the assistant text is
  \<open>Error generating response: \<close> followed by the exception's message, the canonical
  (trimmed) identifier is returned with it, and the memory is left as it was.
\<close>

theorem chat_provider_failure:
  assumes "user_id \<noteq> []"
      and "chat_prepare w tr s q user_id = (Inr (vid, prompt), s1, tr1)"
      and "llm w tr1 prompt = LlmRaised e"
  shows "chat w tr s q user_id =
           (Inr (Some (''Error generating response: '' @ exn_msg e), strip user_id),
            s1, tr1 @ [Completion prompt])
         \<and> current_conversation s1 = current_conversation s
         \<and> (\<exists>xs. http w tr (ValidateGet (strip user_id)) = HttpResponse 200 (Json (JList xs)))"
  using chat_prepare_valid [OF assms(1,2)] chat_prepare_memory [OF assms(2)] assms(2,3)
  by (simp add: chat_def chat_try_def)

theorem chat_provider_failure_witness:
  "''u1'' \<noteq> []
   \<and> chat_prepare world_llm_down [] fresh_session ''q'' ''u1'' =
       (Inr (''u1'', full_prompt [] ''q''), fresh_session, [ValidateGet ''u1'', HistoryGet ''u1''])
   \<and> llm world_llm_down [ValidateGet ''u1'', HistoryGet ''u1''] (full_prompt [] ''q'') =
       LlmRaised (Exn OtherException ''Connection error.'')
   \<and> chat world_llm_down [] fresh_session ''q'' ''u1'' =
       (Inr (Some ''Error generating response: Connection error.'', ''u1''),
        fresh_session,
        [ValidateGet ''u1'', HistoryGet ''u1'', Completion (full_prompt [] ''q'')])"
proof -
  have h1: "''u1'' \<noteq> []" by simp
  have h2: "chat_prepare world_llm_down [] fresh_session ''q'' ''u1'' =
       (Inr (''u1'', full_prompt [] ''q''), fresh_session, [ValidateGet ''u1'', HistoryGet ''u1''])"
    by (simp add: chat_prepare_def load_user_chat_history_def validate_user_exists_def
          validate_user_exists_try_def fetch_chat_history_for_validated_user_def
          fetch_chat_history_try_def build_context_def context_parts_def bind_exn_def
          world_llm_down_def world_ok_def fresh_session_def blank_def strip_def isspace_def)
  have h3: "llm world_llm_down [ValidateGet ''u1'', HistoryGet ''u1''] (full_prompt [] ''q'') =
       LlmRaised (Exn OtherException ''Connection error.'')"
    by (simp add: world_llm_down_def)
  show ?thesis
    using chat_provider_failure [OF h1 h2 h3] h1 h2 h3
    by (simp add: strip_def isspace_def)
qed

subsection \<open>External calls of a turn\<close>

lemma get_or_create_result:
  "get_or_create cfg c k = (Inr inst, c2) \<Longrightarrow> map_of c2 k = Some inst"
  by (auto simp: get_or_create_def split: if_splits sum.splits option.splits)

lemma load_history_trace:
  assumes "\<not> blank u"
      and "load_user_chat_history w tr s u = (Inr vid, s1, tr1)"
  shows "vid = strip u \<and> tr1 = tr @ [ValidateGet (strip u), HistoryGet (strip u)]"
  using assms
  by (auto simp: load_user_chat_history_def validate_nonblank blank_strip strip_strip
        fetch_chat_history_for_validated_user_def
      split: if_splits sum.splits prod.splits)

lemma chat_prepare_trace:
  assumes "\<not> blank u"
      and "chat_prepare w tr s q u = (Inr (vid, prompt), s1, tr1)"
  shows "vid = strip u \<and> tr1 = tr @ [ValidateGet (strip u), HistoryGet (strip u)]"
proof -
  from assms(1) have u: "u \<noteq> []" "strip u \<noteq> []" by (auto simp: blank_def)
  from assms(1) have nb: "\<not> blank (strip u)" by (simp add: blank_strip)
  from assms(2) u obtain s0 where
    l: "load_user_chat_history w tr s (strip u) = (Inr vid, s0, tr1)"
    by (auto simp: chat_prepare_def split: sum.splits prod.splits)
  from load_history_trace [OF nb l] show ?thesis by (simp add: strip_strip)
qed

lemma chat_trace:
  assumes "\<not> blank u"
      and "chat w tr s q u = (Inr (a, vid), s1, tr1)"
  shows "vid = strip u
         \<and> (\<exists>p. tr1 = tr @ [ValidateGet (strip u), HistoryGet (strip u), Completion p])"
proof -
  obtain r0 s0 tr0 where p: "chat_prepare w tr s q u = (r0, s0, tr0)"
    by (cases "chat_prepare w tr s q u") auto
  show ?thesis
  proof (cases r0)
    case (Inl e)
    with assms(2) p show ?thesis by (simp add: chat_def)
  next
    case (Inr vp)
    obtain v prompt where vp: "vp = (v, prompt)" by (cases vp)
    from chat_prepare_trace [OF assms(1) p [unfolded Inr vp]]
    have v: "v = strip u" and tr0: "tr0 = tr @ [ValidateGet (strip u), HistoryGet (strip u)]"
      by simp_all
    from assms(2) p Inr vp have "chat_try w tr0 s0 q v prompt = (Inr (a, vid), s1, tr1)"
      by (simp add: chat_def)
    then show ?thesis using v tr0
      by (auto simp: chat_try_def Let_def split: llm_outcome.splits)
  qed
qed

lemma turn_try_trace:
  assumes nb: "\<not> blank user_id"
      and ok: "chat_with_teddy_try cfg w tr c message user_id = (Inr response, c', tr')"
  shows "\<exists>R p P.
           tr' = tr @ [ValidateGet (strip user_id)] @ R
                    @ [ValidateGet (strip user_id), HistoryGet (strip user_id), Completion p] @ P
           \<and> (R = [] \<or> R = [ReportGet (strip user_id)])
           \<and> (P = [] \<or> P = [ValidateGet (strip user_id)]
                \<or> P = [ValidateGet (strip user_id),
                        HistoryPost (strip user_id) (strip message) (strip response)])
           \<and> (is_greeting message \<longrightarrow> P = [])"
proof -
  let ?k = "strip user_id"
  from nb have nbk: "\<not> blank ?k" by (simp add: blank_strip)
  obtain r1 c2 where g: "get_or_create cfg c ?k = (r1, c2)" by (cases "get_or_create cfg c ?k")
  from ok g obtain inst where r1: "r1 = Inr inst"
    by (cases r1) (auto simp: chat_with_teddy_try_def Let_def)
  obtain d tr1 where f: "fetch_user_specific_expense_data w tr ?k = (Inr d, tr1)"
    and tr1: "tr1 = tr @ [ValidateGet ?k] \<or> tr1 = tr @ [ValidateGet ?k, ReportGet ?k]"
    using fetch_nonblank [OF nbk, of w tr] by (auto simp: strip_strip split: if_splits)
  obtain r2 inst1 where se: "set_expense_data (py_repr w) inst
             (case d of Some d \<Rightarrow> if d \<noteq> [] then Some d else None | None \<Rightarrow> None) = (r2, inst1)"
    by (cases "set_expense_data (py_repr w) inst
             (case d of Some d \<Rightarrow> if d \<noteq> [] then Some d else None | None \<Rightarrow> None)")
  from ok g r1 f se obtain u where r2: "r2 = Inr u"
    by (cases r2) (auto simp: chat_with_teddy_try_def Let_def)
  obtain r3 inst2 tr2 where ch: "chat w tr1 inst1 (strip message) ?k = (r3, inst2, tr2)"
    by (cases "chat w tr1 inst1 (strip message) ?k") auto
  from ok g r1 f se r2 ch obtain a vid where r3: "r3 = Inr (a, vid)"
    by (cases r3) (auto simp: chat_with_teddy_try_def Let_def)
  from chat_trace [OF nbk ch [unfolded r3]] obtain p where
    vid: "vid = ?k" and tr2: "tr2 = tr1 @ [ValidateGet ?k, HistoryGet ?k, Completion p]"
    by (auto simp: strip_strip)
  from ok g r1 f se r2 ch r3 have a: "a = Some response" and resp: "response \<noteq> []"
    by (auto simp: chat_with_teddy_try_def Let_def split: option.splits if_splits prod.splits sum.splits)
  from nbk have k: "?k \<noteq> []" by (auto simp: blank_def)
  from tr1 obtain R where R: "tr1 = tr @ [ValidateGet ?k] @ R" "R = [] \<or> R = [ReportGet ?k]"
    by auto
  have "\<exists>P. tr' = tr2 @ P
          \<and> (P = [] \<or> P = [ValidateGet ?k]
               \<or> P = [ValidateGet ?k, HistoryPost ?k (strip message) (strip response)])
          \<and> (is_greeting message \<longrightarrow> P = [])"
  proof (cases "is_greeting message")
    case True
    with ok g r1 f se r2 ch r3 a resp have "tr' = tr2"
      by (simp add: chat_with_teddy_try_def Let_def)
    with True show ?thesis by simp
  next
    case False
    obtain r4 tr3 where ps: "validate_and_send_to_history w tr2 (strip message) response ?k = (r4, tr3)"
      by (cases "validate_and_send_to_history w tr2 (strip message) response ?k")
    from ok g r1 f se r2 ch r3 a resp False vid k ps have tr': "tr' = tr3"
      by (auto simp: chat_with_teddy_try_def Let_def split: sum.splits)
    have "tr3 = tr2 @ [] \<or> tr3 = tr2 @ [ValidateGet ?k]
          \<or> tr3 = tr2 @ [ValidateGet ?k, HistoryPost ?k (strip message) (strip response)]"
    proof (cases "strip message = []")
      case True
      then show ?thesis using ps persist_short [of "strip message" response ?k w tr2] by simp
    next
      case sm: False
      show ?thesis
        using ps persist_nonblank [OF sm resp nbk, of w tr2]
        by (auto simp: strip_strip split: if_splits)
    qed
    with tr' False show ?thesis by blast
  qed
  then obtain P where P: "tr' = tr2 @ P"
      "P = [] \<or> P = [ValidateGet ?k]
         \<or> P = [ValidateGet ?k, HistoryPost ?k (strip message) (strip response)]"
      "is_greeting message \<longrightarrow> P = []"
    by blast
  have "tr' = tr @ [ValidateGet ?k] @ R @ [ValidateGet ?k, HistoryGet ?k, Completion p] @ P"
    by (simp add: P(1) tr2 R(1))
  with R(2) P(2,3) show ?thesis by blast
qed


text \<open>
  C3, as amended. A successfully handled message makes these external calls, in this order
  and no others: an identity validation (issued by the record fetch), at most one record
  fetch, a second identity validation (issued by \<open>chat\<close>), exactly one history load,
  exactly one completion call and then, unless the message is a greeting, at most one more
  identity validation followed by at most one history persist. So the history load and the
  completion are attempted exactly once, the record fetch and the persist at most once, and
  the identity check against the history endpoint two or three times; nothing is retried.
\<close>

theorem turn_calls:
  assumes "chat_with_teddy cfg w tr st message user_id = (Inr resp, st', tr')"
  shows "\<exists>R p P.
           tr' = tr @ [ValidateGet (strip user_id)] @ R
                    @ [ValidateGet (strip user_id), HistoryGet (strip user_id), Completion p] @ P
           \<and> (R = [] \<or> R = [ReportGet (strip user_id)])
           \<and> (P = [] \<or> P = [ValidateGet (strip user_id)]
                \<or> P = [ValidateGet (strip user_id),
                        HistoryPost (strip user_id) (strip message) (strip (fst resp))])
           \<and> (is_greeting message \<longrightarrow> P = [])"
proof -
  from assms have nb: "\<not> blank user_id"
    by (auto simp: chat_with_teddy_def split: if_splits)
  obtain r c' tr1 where t: "chat_with_teddy_try cfg w tr (user_rag_cache st) message user_id = (r, c', tr1)"
    by (cases "chat_with_teddy_try cfg w tr (user_rag_cache st) message user_id") auto
  from assms t obtain response where r: "r = Inr response" and resp: "resp = (response, ''success'')"
     and tr1: "tr1 = tr'"
    by (cases r) (auto simp: chat_with_teddy_def split: if_splits)
  from turn_try_trace [OF nb t [unfolded r tr1]] show ?thesis by (simp add: resp)
qed

lemma strip_plain: "strip ''u1'' = ''u1''" "strip ''what did I spend?'' = ''what did I spend?''"
  "strip ''ok'' = ''ok''"
  by (simp_all add: strip_def isspace_def)

lemma turn_example:
  "chat_with_teddy config_ok world_ok [] app_example ''what did I spend?'' ''u1'' =
     (Inr (''ok'', ''success''),
      app_example\<lparr>user_rag_cache :=
        [(''u1'', fresh_session\<lparr>current_conversation := [(''what did I spend?'', Some ''ok'')]\<rparr>)]\<rparr>,
      [ValidateGet ''u1'', ReportGet ''u1'', ValidateGet ''u1'', HistoryGet ''u1'',
       Completion (full_prompt [] ''what did I spend?''),
       ValidateGet ''u1'', HistoryPost ''u1'' ''what did I spend?'' ''ok''])"
proof -
  have nb: "\<not> blank ''u1''" "\<not> blank ''what did I spend?''"
    by (simp_all add: blank_def strip_plain)
  have g: "get_or_create config_ok [] ''u1'' = (Inr fresh_session, [(''u1'', fresh_session)])"
    by (simp add: get_or_create_def MAX_CACHE_SIZE_def new_rag_config_ok)
  have f: "fetch_user_specific_expense_data world_ok [] ''u1'' = (Inr None, [ValidateGet ''u1'', ReportGet ''u1''])"
    by (simp add: fetch_nonblank nb strip_plain) (simp add: world_ok_def)
  have se: "set_expense_data R fresh_session None = (Inr (), fresh_session)" for R
    by (simp add: set_expense_data_def fresh_session_def)
  have v: "validate_user_exists world_ok tr ''u1'' = (Inr (True, ''u1''), tr @ [ValidateGet ''u1''])" for tr
    by (simp add: validate_nonblank nb strip_plain) (simp add: world_ok_def)
  have ch: "chat world_ok [ValidateGet ''u1'', ReportGet ''u1''] fresh_session ''what did I spend?'' ''u1'' =
      (Inr (Some ''ok'', ''u1''),
       fresh_session\<lparr>current_conversation := [(''what did I spend?'', Some ''ok'')]\<rparr>,
       [ValidateGet ''u1'', ReportGet ''u1'', ValidateGet ''u1'', HistoryGet ''u1'',
        Completion (full_prompt [] ''what did I spend?'')])"
    by (simp add: chat_def chat_prepare_def chat_try_def load_user_chat_history_def v nb strip_plain
          fetch_chat_history_for_validated_user_def fetch_chat_history_try_def
          build_context_def context_parts_def bind_exn_def Let_def last_n_def)
       (simp add: world_ok_def fresh_session_def chat_try_def
          build_context_def context_parts_def bind_exn_def Let_def last_n_def)
  have gr: "\<not> is_greeting ''what did I spend?''"
    by (simp add: is_greeting_def lower_def lower_char_def)
  have ps: "validate_and_send_to_history world_ok tr ''what did I spend?'' ''ok'' ''u1'' =
      (Inr True, tr @ [ValidateGet ''u1'', HistoryPost ''u1'' ''what did I spend?'' ''ok''])" for tr
    by (simp add: persist_nonblank nb strip_plain) (simp add: world_ok_def)
  show ?thesis
    by (simp add: chat_with_teddy_def chat_with_teddy_try_def app_example_def nb strip_plain
          g f se ch gr ps store_def Let_def)
qed

theorem turn_calls_witness:
  "chat_with_teddy config_ok world_ok [] app_example ''what did I spend?'' ''u1'' =
     (Inr (''ok'', ''success''),
      app_example\<lparr>user_rag_cache :=
        [(''u1'', fresh_session\<lparr>current_conversation := [(''what did I spend?'', Some ''ok'')]\<rparr>)]\<rparr>,
      [ValidateGet ''u1'', ReportGet ''u1'', ValidateGet ''u1'', HistoryGet ''u1'',
       Completion (full_prompt [] ''what did I spend?''),
       ValidateGet ''u1'', HistoryPost ''u1'' ''what did I spend?'' ''ok''])
   \<and> (\<exists>R p P.
         [ValidateGet ''u1'', ReportGet ''u1'', ValidateGet ''u1'', HistoryGet ''u1'',
          Completion (full_prompt [] ''what did I spend?''),
          ValidateGet ''u1'', HistoryPost ''u1'' ''what did I spend?'' ''ok'']
           = [] @ [ValidateGet ''u1''] @ R @ [ValidateGet ''u1'', HistoryGet ''u1'', Completion p] @ P
         \<and> (R = [] \<or> R = [ReportGet ''u1''])
         \<and> (P = [] \<or> P = [ValidateGet ''u1'']
              \<or> P = [ValidateGet ''u1'', HistoryPost ''u1'' ''what did I spend?'' ''ok''])
         \<and> (is_greeting ''what did I spend?'' \<longrightarrow> P = []))"
  using turn_calls [OF turn_example] turn_example
  by (simp add: strip_plain)

text \<open>
  C3 as stated fails: the turn below is handled successfully and issues the identity check
  three times.
\<close>

theorem one_validation_counterexample:
  "fst (chat_with_teddy config_ok world_ok [] app_example ''what did I spend?'' ''u1'')
     = Inr (''ok'', ''success'')
   \<and> map kind_of (snd (snd (chat_with_teddy config_ok world_ok [] app_example ''what did I spend?'' ''u1'')))
     = [Validation, RecordFetch, Validation, HistoryLoad, CompletionCall, Validation, Persist]
   \<and> count_list
         (map kind_of (snd (snd (chat_with_teddy config_ok world_ok [] app_example ''what did I spend?'' ''u1''))))
         Validation
     \<noteq> 1"
  by (simp add: turn_example)

subsection \<open>Session Cache\<close>

lemma remove_count_101: "remove_count 101 = Inr 20"
  by (simp add: remove_count_def float_of_int_def round64_def mk_finite_def bind_exn_def signed_def Let_def)

lemma fold_dict_del_take:
  "distinct (map fst c) \<Longrightarrow> fold dict_del (take n (map fst c)) c = drop n c"
proof (induction c arbitrary: n)
  case Nil
  then show ?case by simp
next
  case (Cons kv c)
  show ?case
  proof (cases n)
    case 0
    then show ?thesis by simp
  next
    case (Suc m)
    from Cons.prems have d: "distinct (map fst c)" and nin: "fst kv \<notin> fst ` set c" by simp_all
    from nin have "filter (\<lambda>x. fst x \<noteq> fst kv) c = c"
      by (intro filter_True) (metis imageI)
    then have "dict_del (fst kv) (kv # c) = c" by (simp add: dict_del_def)
    then show ?thesis using Cons.IH [OF d, of m] Suc by simp
  qed
qed

text \<open>
  When the clean-up runs on a cache of 101 entries it removes \<open>int(101 * 0.2) = 20\<close>
  entries, the oldest by insertion order, and leaves the 81 newest.
\<close>

lemma cleanup_small: "length c \<le> 100 \<Longrightarrow> cleanup_rag_cache c = Inr c"
  by (simp add: cleanup_rag_cache_def MAX_CACHE_SIZE_def bind_exn_def)

lemma cleanup_101:
  "length c = 101 \<Longrightarrow> distinct (map fst c) \<Longrightarrow> cleanup_rag_cache c = Inr (drop 20 c)"
  by (simp add: cleanup_rag_cache_def MAX_CACHE_SIZE_def remove_count_101 bind_exn_def
        fold_dict_del_take)

text \<open>From the empty cache, the cache never holds more than 101 entries.\<close>

lemma get_or_create_inv:
  assumes "cache_inv c"
  shows "cache_inv (snd (get_or_create cfg c k))"
proof (cases "length c \<le> 100")
  case True
  with assms show ?thesis
    by (auto simp: get_or_create_def MAX_CACHE_SIZE_def cache_inv_def
        split: sum.splits option.splits)
next
  case False
  with assms have l: "length c = 101" and d: "distinct (map fst c)"
    by (auto simp: cache_inv_def MAX_CACHE_SIZE_def)
  have dd: "distinct (map fst (drop 20 c))"
    using d by (simp add: distinct_drop drop_map [symmetric])
  show ?thesis
    using l dd
    by (auto simp: get_or_create_def MAX_CACHE_SIZE_def cache_inv_def cleanup_101 [OF l d]
        split: sum.splits option.splits)
qed

lemma get_or_create_all_inv:
  "cache_inv c \<Longrightarrow> cache_inv (get_or_create_all cfg c ks)"
  by (induction ks arbitrary: c) (auto simp: get_or_create_inv)

lemma cache_bound_101:
  "length (get_or_create_all cfg [] ks) \<le> 101"
  using get_or_create_all_inv [of "[]" cfg ks] by (simp add: cache_inv_def MAX_CACHE_SIZE_def)

lemma get_or_create_new:
  assumes "length c \<le> 100" and "k \<notin> fst ` set c"
  shows "get_or_create config_ok c k = (Inr fresh_session, c @ [(k, fresh_session)])"
proof -
  from assms(2) have "map_of c k = None" by (simp add: map_of_eq_None_iff)
  with assms show ?thesis
    by (simp add: get_or_create_def MAX_CACHE_SIZE_def new_rag_config_ok map_add_def
          map_of_append)
qed

lemma get_or_create_all_new:
  "distinct ks \<Longrightarrow> set ks \<inter> fst ` set c = {} \<Longrightarrow> length c + length ks \<le> 101 \<Longrightarrow>
   get_or_create_all config_ok c ks = c @ map (\<lambda>k. (k, fresh_session)) ks"
proof (induction ks arbitrary: c)
  case Nil
  then show ?case by simp
next
  case (Cons k ks)
  from Cons.prems have a: "length c \<le> 100" "k \<notin> fst ` set c" by auto
  from Cons.prems have b: "distinct ks" "set ks \<inter> fst ` set (c @ [(k, fresh_session)]) = {}"
    "length (c @ [(k, fresh_session)]) + length ks \<le> 101" by auto
  show ?case
    using Cons.IH [OF b] by (simp add: get_or_create_new [OF a])
qed

lemma users_101_distinct: "distinct users_101" "length users_101 = 101"
proof -
  have "inj_on (\<lambda>i. replicate i (CHR ''u'')) (set [1 ..< 102])"
    by (rule inj_onI) (metis length_replicate)
  then show "distinct users_101"
    unfolding users_101_def by (simp add: distinct_map)
  show "length users_101 = 101" by (simp add: users_101_def)
qed

text \<open>
  C2. The claim says that the cache never holds more than \<open>MAX_CACHE_SIZE = 100\<close> entries.
  The get-or-create step checks the size before it inserts: after get-or-create steps for
  101 different identifiers on the empty cache, the cache holds all 101 of them, and
  nothing is evicted until the next step.
\<close>

theorem cache_overflow:
  "get_or_create_all config_ok [] users_101 = map (\<lambda>k. (k, fresh_session)) users_101
   \<and> length (get_or_create_all config_ok [] users_101) = 101
   \<and> MAX_CACHE_SIZE < length (get_or_create_all config_ok [] users_101)"
  using get_or_create_all_new [of users_101 "[]"] users_101_distinct
  by (simp add: MAX_CACHE_SIZE_def)

subsection \<open>Record Summarizer\<close>




























subsection \<open>Provider failure at the handler\<close>

text \<open>
  When a request reaches the completion call and the provider raises, the handler answers
  with status \<open>success\<close> and the error text as the response.
\<close>

lemma handler_provider_failure:
  assumes "rag_instance st \<noteq> None" and "\<not> blank message" and "\<not> blank user_id"
      and "get_or_create cfg (user_rag_cache st) (strip user_id) = (Inr inst, c2)"
      and "fetch_user_specific_expense_data w tr (strip user_id) = (Inr d, tr1)"
      and "set_expense_data (py_repr w) inst
             (case d of Some d \<Rightarrow> if d \<noteq> [] then Some d else None | None \<Rightarrow> None) = (Inr u, inst1)"
      and "chat_prepare w tr1 inst1 (strip message) (strip user_id) = (Inr (vid, prompt), s1, tr2)"
      and "llm w tr2 prompt = LlmRaised e"
  shows "fst (chat_with_teddy cfg w tr st message user_id) =
           Inr (''Error generating response: '' @ exn_msg e, ''success'')"
proof -
  from assms(3) have k: "strip user_id \<noteq> []" by (auto simp: blank_def)
  from assms(2) have m: "strip message \<noteq> []" by (auto simp: blank_def)
  have nbk: "\<not> blank (strip user_id)" using assms(3) by (simp add: blank_strip)
  from chat_prepare_valid [OF k assms(7)] have vid: "vid = strip user_id"
    by (simp add: strip_strip)
  have ch: "chat w tr1 inst1 (strip message) (strip user_id) =
      (Inr (Some (''Error generating response: '' @ exn_msg e), strip user_id), s1,
       tr2 @ [Completion prompt])"
    using assms(7,8) vid by (simp add: chat_def chat_try_def)
  have ne: "''Error generating response: '' @ exn_msg e \<noteq> []" by simp
  obtain b tr3 where ps: "validate_and_send_to_history w (tr2 @ [Completion prompt]) (strip message)
       (''Error generating response: '' @ exn_msg e) (strip user_id) = (Inr b, tr3)"
    using persist_nonblank [OF m ne nbk, of w "tr2 @ [Completion prompt]"]
    by (cases "\<exists>xs. http w (tr2 @ [Completion prompt]) (ValidateGet (strip (strip user_id))) =
                 HttpResponse 200 (Json (JList xs))") auto
  show ?thesis
    using assms(1-6) ch ps k
    by (simp add: chat_with_teddy_def chat_with_teddy_try_def Let_def)
qed

end
